theory Spec2Isabelle
  imports Main
begin

section \<open>Data model of merge\_request\_approvals.go\<close>

text \<open>
  The file binds five GitLab merge-request approval endpoints. Every method parses the
  project identifier, formats a path, asks the shared client to build a request, and
  hands the request to the client's \<open>Do\<close>. The client itself, \<open>parseID\<close>,
  \<open>pathEscape\<close> and the types \<open>MergeRequest\<close>, \<open>BasicUser\<close>, \<open>Response\<close>,
  \<open>OptionFunc\<close> are declared elsewhere in the package: they are parameters here
  (type variables and the fields of the record \<open>env\<close>).

  Go's \<open>int\<close> is modelled as \<open>int\<close>: the file does no arithmetic on it, it only
  stores it and prints it with \<open>%d\<close>. A pointer is an \<open>option\<close> (\<open>None\<close> is
  \<open>nil\<close>); pointers to the structs this file passes by reference are addresses into
  a heap.
\<close>

type_synonym addr = nat

record 'c MergeRequestApprovalsService =
  client :: 'c

record 'u MergeRequestApproverUser =
  User :: "'u option"

record Group =
  ID :: int
  Name :: string
  Path :: string
  Description :: string
  Visibility :: string
  AvatarURL :: string
  WebURL :: string
  FullName :: string
  FullPath :: string
  LFSEnabled :: bool
  RequestAccessEnabled :: bool

record MergeRequestApproverGroup =
  Group :: Group

record ('t, 'u) MergeRequestApprovals =
  ID :: int
  ProjectID :: int
  Title :: string
  Description :: string
  State :: string
  CreatedAt :: "'t option"
  UpdatedAt :: "'t option"
  MergeStatus :: string
  ApprovalsBeforeMerge :: int
  ApprovalsRequired :: int
  ApprovalsLeft :: int
  ApprovedBy :: "'u MergeRequestApproverUser option list"
  Approvers :: "'u MergeRequestApproverUser option list"
  ApproverGroups :: "MergeRequestApproverGroup option list"
  SuggestedApprovers :: "'u option list"

record ApproveMergeRequestOptions =
  SHA :: "string option"

record ChangeMergeRequestApprovalConfigurationOptions =
  ApprovalsRequired :: "int option"

record ChangeMergeRequestAllowedApproversOptions =
  ApproverIDs :: "int list"
  ApproverGroupIDs :: "int list"

record ProjectMergeRequestApprovalSettings =
  ApprovalsBeforeMerge :: "int option"
  DisableOverridingApproversPerMergeRequest :: "bool option"
  MergeRequestsAuthorApproval :: "bool option"
  MergeRequestsDisableCommittersApproval :: "bool option"
  ResetApprovalsOnPush :: "bool option"

text \<open>\<open>new(MergeRequestApprovals)\<close>: every field has the zero value of its type.\<close>

definition zero_MergeRequestApprovals :: "('t, 'u) MergeRequestApprovals" where
  "zero_MergeRequestApprovals =
     \<lparr> MergeRequestApprovals.ID = 0, ProjectID = 0, Title = [],
       MergeRequestApprovals.Description = [], State = [],
       CreatedAt = None, UpdatedAt = None, MergeStatus = [],
       MergeRequestApprovals.ApprovalsBeforeMerge = 0,
       MergeRequestApprovals.ApprovalsRequired = 0, ApprovalsLeft = 0,
       ApprovedBy = [], Approvers = [], ApproverGroups = [], SuggestedApprovers = [] \<rparr>"

subsection \<open>Heap\<close>

text \<open>
  The objects the methods reach through pointers: the service struct behind the
  receiver \<open>s\<close>, the option structs behind \<open>opt\<close>, and the result structs that
  \<open>new\<close> allocates. An address is an index into the list; \<open>new\<close> appends.
  \<open>world\<close> is whatever else the client owns (connections, the remote server).
\<close>

datatype ('c, 't, 'u, 'mr) obj =
    Service_obj "'c MergeRequestApprovalsService"
  | ApproveMergeRequestOptions_obj ApproveMergeRequestOptions
  | ChangeMergeRequestApprovalConfigurationOptions_obj
      ChangeMergeRequestApprovalConfigurationOptions
  | ChangeMergeRequestAllowedApproversOptions_obj ChangeMergeRequestAllowedApproversOptions
  | ProjectMergeRequestApprovalSettings_obj ProjectMergeRequestApprovalSettings
  | MergeRequestApprovals_obj "('t, 'u) MergeRequestApprovals"
  | MergeRequest_obj 'mr

record ('c, 't, 'u, 'mr, 'w) mem =
  heap :: "('c, 't, 'u, 'mr) obj list"
  world :: 'w

definition new_obj ::
  "('c, 't, 'u, 'mr) obj \<Rightarrow> ('c, 't, 'u, 'mr, 'w) mem \<Rightarrow> addr \<times> ('c, 't, 'u, 'mr, 'w) mem" where
  "new_obj v st = (length (heap st), st\<lparr>heap := heap st @ [v]\<rparr>)"

text \<open>
  \<open>s.client\<close>: the read of the receiver's field. \<open>None\<close> is the nil-pointer
  dereference (a panic in Go); an address that holds no service struct cannot arise in
  a well-typed Go program and is treated the same way.
\<close>

definition load_client :: "addr option \<Rightarrow> ('c, 't, 'u, 'mr, 'w) mem \<Rightarrow> 'c option" where
  "load_client s st =
     (case s of
        None \<Rightarrow> None
      | Some a \<Rightarrow>
          (if a < length (heap st)
           then (case heap st ! a of Service_obj svc \<Rightarrow> Some (client svc) | _ \<Rightarrow> None)
           else None))"

subsection \<open>What crosses the boundary to the client\<close>

text \<open>
  The \<open>opt\<close> argument of \<open>NewRequest\<close> and the \<open>v\<close> argument of \<open>Do\<close> are
  \<open>interface{}\<close> values: either the untyped \<open>nil\<close> or a typed pointer.
\<close>

datatype payload =
    Nil_payload
  | ApproveMergeRequestOptions_ptr "addr option"
  | ChangeMergeRequestApprovalConfigurationOptions_ptr "addr option"
  | ChangeMergeRequestAllowedApproversOptions_ptr "addr option"
  | ProjectMergeRequestApprovalSettings_ptr "addr option"

datatype target =
    Nil_target
  | MergeRequestApprovals_ptr addr
  | MergeRequest_ptr addr

text \<open>
  The package context. \<open>parseID\<close> and \<open>NewRequest\<close> return a value and an error,
  as in Go; the methods look at the error only. \<open>NewRequest\<close> and \<open>Do\<close> are
  methods of the client \<open>'c\<close> and may change the memory. \<open>zero_MergeRequest\<close> is the
  zero value of the struct \<open>MergeRequest\<close>.
\<close>

record ('p, 'e, 'c, 'f, 'q, 'r, 't, 'u, 'mr, 'w) env =
  parseID :: "'p \<Rightarrow> string \<times> 'e option"
  pathEscape :: "string \<Rightarrow> string"
  NewRequest :: "'c \<Rightarrow> string \<Rightarrow> string \<Rightarrow> payload
        \<Rightarrow> 'f list \<Rightarrow> ('c, 't, 'u, 'mr, 'w) mem
                 \<Rightarrow> ('q option \<times> 'e option) \<times> ('c, 't, 'u, 'mr, 'w) mem"
  Do :: "'c \<Rightarrow> 'q option \<Rightarrow> target \<Rightarrow> ('c, 't, 'u, 'mr, 'w) mem
         \<Rightarrow> ('r option \<times> 'e option) \<times> ('c, 't, 'u, 'mr, 'w) mem"
  zero_MergeRequest :: 'mr

text \<open>
  The calls a method makes on the client, in order, each with its arguments and with
  what the client returned.
\<close>

datatype ('e, 'c, 'f, 'q, 'r) call =
    NewRequest_call 'c string string payload "'f list" "'q option" "'e option"
  | Do_call 'c "'q option" target "'r option" "'e option"

datatype 'a outcome = Panic | Return 'a

subsection \<open>\<open>fmt.Sprintf\<close> with \<open>%d\<close>\<close>

fun digits :: "nat \<Rightarrow> string" where
  "digits n =
     (if n < 10 then [''0123456789'' ! n]
      else digits (n div 10) @ [''0123456789'' ! (n mod 10)])"

definition fmt_d :: "int \<Rightarrow> string" where
  "fmt_d i = (if i < 0 then CHR ''-'' # digits (nat (- i)) else digits (nat i))"

declare digits.simps [simp del]

section \<open>The methods\<close>

text \<open>
  Each method takes the package context, its Go arguments and the memory, and gives
  back what it returns (or \<open>Panic\<close>), the memory afterwards, and the list of calls
  it made on the client. The receiver \<open>s\<close> is a pointer to the service struct;
  \<open>s.client\<close> is read at each use, as the source does.
\<close>

definition ApproveMergeRequest ::
  "('p, 'e, 'c, 'f, 'q, 'r, 't, 'u, 'mr, 'w) env \<Rightarrow> addr option \<Rightarrow> 'p \<Rightarrow> int \<Rightarrow> addr option
        \<Rightarrow> 'f list \<Rightarrow> ('c, 't, 'u, 'mr, 'w) mem
   \<Rightarrow> (addr option \<times> 'r option \<times> 'e option) outcome \<times> ('c, 't, 'u, 'mr, 'w) mem \<times> ('e, 'c, 'f, 'q, 'r) call list" where
  "ApproveMergeRequest env s pid mr opt options st =
     (case parseID env pid of
        (project, Some err) \<Rightarrow> (Return (None, None, Some err), st, [])
      | (project, None) \<Rightarrow>
          (let u = ''projects/'' @ pathEscape env project @ ''/merge_requests/'' @ fmt_d mr
                     @ ''/approve''
           in case load_client s st of
                None \<Rightarrow> (Panic, st, [])
              | Some c \<Rightarrow>
                  (case NewRequest env c ''POST'' u (ApproveMergeRequestOptions_ptr opt)
                          options st of
                     ((req, Some err), st1) \<Rightarrow>
                       (Return (None, None, Some err), st1,
                        [NewRequest_call c ''POST'' u (ApproveMergeRequestOptions_ptr opt)
                           options req (Some err)])
                   | ((req, None), st1) \<Rightarrow>
                       (let called = [NewRequest_call c ''POST'' u
                                        (ApproveMergeRequestOptions_ptr opt) options req None];
                            (m, st2) = new_obj (MergeRequestApprovals_obj
                                                  zero_MergeRequestApprovals) st1
                        in case load_client s st2 of
                             None \<Rightarrow> (Panic, st2, called)
                           | Some c' \<Rightarrow>
                               (case Do env c' req (MergeRequestApprovals_ptr m) st2 of
                                  ((resp, Some err), st3) \<Rightarrow>
                                    (Return (None, resp, Some err), st3,
                                     called @ [Do_call c' req (MergeRequestApprovals_ptr m)
                                                 resp (Some err)])
                                | ((resp, None), st3) \<Rightarrow>
                                    (Return (Some m, resp, None), st3,
                                     called @ [Do_call c' req (MergeRequestApprovals_ptr m)
                                                 resp None]))))))"

text \<open>
  \<open>UnapproveMergeRequest\<close> returns a response and an error only; it passes the
  untyped \<open>nil\<close> as options and as decode target, and returns whatever \<open>Do\<close>
  returns.
\<close>

definition UnapproveMergeRequest ::
  "('p, 'e, 'c, 'f, 'q, 'r, 't, 'u, 'mr, 'w) env \<Rightarrow> addr option \<Rightarrow> 'p \<Rightarrow> int
        \<Rightarrow> 'f list \<Rightarrow> ('c, 't, 'u, 'mr, 'w) mem
   \<Rightarrow> ('r option \<times> 'e option) outcome \<times> ('c, 't, 'u, 'mr, 'w) mem \<times> ('e, 'c, 'f, 'q, 'r) call list" where
  "UnapproveMergeRequest env s pid mr options st =
     (case parseID env pid of
        (project, Some err) \<Rightarrow> (Return (None, Some err), st, [])
      | (project, None) \<Rightarrow>
          (let u = ''projects/'' @ pathEscape env project @ ''/merge_requests/'' @ fmt_d mr
                     @ ''/unapprove''
           in case load_client s st of
                None \<Rightarrow> (Panic, st, [])
              | Some c \<Rightarrow>
                  (case NewRequest env c ''POST'' u Nil_payload options st of
                     ((req, Some err), st1) \<Rightarrow>
                       (Return (None, Some err), st1,
                        [NewRequest_call c ''POST'' u Nil_payload options req (Some err)])
                   | ((req, None), st1) \<Rightarrow>
                       (let called = [NewRequest_call c ''POST'' u Nil_payload options req None]
                        in case load_client s st1 of
                             None \<Rightarrow> (Panic, st1, called)
                           | Some c' \<Rightarrow>
                               (case Do env c' req Nil_target st1 of
                                  ((resp, err), st2) \<Rightarrow>
                                    (Return (resp, err), st2,
                                     called @ [Do_call c' req Nil_target resp err]))))))"

definition ChangeApprovalConfiguration ::
  "('p, 'e, 'c, 'f, 'q, 'r, 't, 'u, 'mr, 'w) env \<Rightarrow> addr option \<Rightarrow> 'p \<Rightarrow> int \<Rightarrow> addr option
        \<Rightarrow> 'f list \<Rightarrow> ('c, 't, 'u, 'mr, 'w) mem
   \<Rightarrow> (addr option \<times> 'r option \<times> 'e option) outcome \<times> ('c, 't, 'u, 'mr, 'w) mem \<times> ('e, 'c, 'f, 'q, 'r) call list" where
  "ChangeApprovalConfiguration env s pid mergeRequestIID opt options st =
     (case parseID env pid of
        (project, Some err) \<Rightarrow> (Return (None, None, Some err), st, [])
      | (project, None) \<Rightarrow>
          (let u = ''projects/'' @ pathEscape env project @ ''/merge_requests/''
                     @ fmt_d mergeRequestIID @ ''/approvals''
           in case load_client s st of
                None \<Rightarrow> (Panic, st, [])
              | Some c \<Rightarrow>
                  (case NewRequest env c ''POST'' u
                          (ChangeMergeRequestApprovalConfigurationOptions_ptr opt) options st of
                     ((req, Some err), st1) \<Rightarrow>
                       (Return (None, None, Some err), st1,
                        [NewRequest_call c ''POST'' u
                           (ChangeMergeRequestApprovalConfigurationOptions_ptr opt)
                           options req (Some err)])
                   | ((req, None), st1) \<Rightarrow>
                       (let called = [NewRequest_call c ''POST'' u
                                        (ChangeMergeRequestApprovalConfigurationOptions_ptr opt)
                                        options req None];
                            (m, st2) = new_obj (MergeRequest_obj (zero_MergeRequest env)) st1
                        in case load_client s st2 of
                             None \<Rightarrow> (Panic, st2, called)
                           | Some c' \<Rightarrow>
                               (case Do env c' req (MergeRequest_ptr m) st2 of
                                  ((resp, Some err), st3) \<Rightarrow>
                                    (Return (None, resp, Some err), st3,
                                     called @ [Do_call c' req (MergeRequest_ptr m)
                                                 resp (Some err)])
                                | ((resp, None), st3) \<Rightarrow>
                                    (Return (Some m, resp, None), st3,
                                     called @ [Do_call c' req (MergeRequest_ptr m)
                                                 resp None]))))))"

definition ChangeAllowedApprovers ::
  "('p, 'e, 'c, 'f, 'q, 'r, 't, 'u, 'mr, 'w) env \<Rightarrow> addr option \<Rightarrow> 'p \<Rightarrow> int \<Rightarrow> addr option
        \<Rightarrow> 'f list \<Rightarrow> ('c, 't, 'u, 'mr, 'w) mem
   \<Rightarrow> (addr option \<times> 'r option \<times> 'e option) outcome \<times> ('c, 't, 'u, 'mr, 'w) mem \<times> ('e, 'c, 'f, 'q, 'r) call list" where
  "ChangeAllowedApprovers env s pid mergeRequestIID opt options st =
     (case parseID env pid of
        (project, Some err) \<Rightarrow> (Return (None, None, Some err), st, [])
      | (project, None) \<Rightarrow>
          (let u = ''projects/'' @ pathEscape env project @ ''/merge_requests/''
                     @ fmt_d mergeRequestIID @ ''/approvers''
           in case load_client s st of
                None \<Rightarrow> (Panic, st, [])
              | Some c \<Rightarrow>
                  (case NewRequest env c ''PUT'' u
                          (ChangeMergeRequestAllowedApproversOptions_ptr opt) options st of
                     ((req, Some err), st1) \<Rightarrow>
                       (Return (None, None, Some err), st1,
                        [NewRequest_call c ''PUT'' u
                           (ChangeMergeRequestAllowedApproversOptions_ptr opt)
                           options req (Some err)])
                   | ((req, None), st1) \<Rightarrow>
                       (let called = [NewRequest_call c ''PUT'' u
                                        (ChangeMergeRequestAllowedApproversOptions_ptr opt)
                                        options req None];
                            (m, st2) = new_obj (MergeRequest_obj (zero_MergeRequest env)) st1
                        in case load_client s st2 of
                             None \<Rightarrow> (Panic, st2, called)
                           | Some c' \<Rightarrow>
                               (case Do env c' req (MergeRequest_ptr m) st2 of
                                  ((resp, Some err), st3) \<Rightarrow>
                                    (Return (None, resp, Some err), st3,
                                     called @ [Do_call c' req (MergeRequest_ptr m)
                                                 resp (Some err)])
                                | ((resp, None), st3) \<Rightarrow>
                                    (Return (Some m, resp, None), st3,
                                     called @ [Do_call c' req (MergeRequest_ptr m)
                                                 resp None]))))))"

definition ChangeProjectMergeRequestApprovalConfiguration ::
  "('p, 'e, 'c, 'f, 'q, 'r, 't, 'u, 'mr, 'w) env \<Rightarrow> addr option \<Rightarrow> 'p \<Rightarrow> addr option
        \<Rightarrow> 'f list \<Rightarrow> ('c, 't, 'u, 'mr, 'w) mem
   \<Rightarrow> (addr option \<times> 'r option \<times> 'e option) outcome \<times> ('c, 't, 'u, 'mr, 'w) mem \<times> ('e, 'c, 'f, 'q, 'r) call list" where
  "ChangeProjectMergeRequestApprovalConfiguration env s pid opt options st =
     (case parseID env pid of
        (project, Some err) \<Rightarrow> (Return (None, None, Some err), st, [])
      | (project, None) \<Rightarrow>
          (let u = ''projects/'' @ pathEscape env project @ ''/approvals''
           in case load_client s st of
                None \<Rightarrow> (Panic, st, [])
              | Some c \<Rightarrow>
                  (case NewRequest env c ''POST'' u
                          (ProjectMergeRequestApprovalSettings_ptr opt) options st of
                     ((req, Some err), st1) \<Rightarrow>
                       (Return (None, None, Some err), st1,
                        [NewRequest_call c ''POST'' u
                           (ProjectMergeRequestApprovalSettings_ptr opt)
                           options req (Some err)])
                   | ((req, None), st1) \<Rightarrow>
                       (let called = [NewRequest_call c ''POST'' u
                                        (ProjectMergeRequestApprovalSettings_ptr opt)
                                        options req None];
                            (m, st2) = new_obj (MergeRequestApprovals_obj
                                                  zero_MergeRequestApprovals) st1
                        in case load_client s st2 of
                             None \<Rightarrow> (Panic, st2, called)
                           | Some c' \<Rightarrow>
                               (case Do env c' req (MergeRequestApprovals_ptr m) st2 of
                                  ((resp, Some err), st3) \<Rightarrow>
                                    (Return (None, resp, Some err), st3,
                                     called @ [Do_call c' req (MergeRequestApprovals_ptr m)
                                                 resp (Some err)])
                                | ((resp, None), st3) \<Rightarrow>
                                    (Return (Some m, resp, None), st3,
                                     called @ [Do_call c' req (MergeRequestApprovals_ptr m)
                                                 resp None]))))))"

section \<open>Observing a run\<close>

definition result_of :: "'a \<times> 'b \<times> 'c \<Rightarrow> 'a" where
  "result_of r = fst r"

definition mem_of :: "'a \<times> 'b \<times> 'c \<Rightarrow> 'b" where
  "mem_of r = fst (snd r)"

definition calls_of :: "'a \<times> 'b \<times> 'c \<Rightarrow> 'c" where
  "calls_of r = snd (snd r)"

fun is_Do :: "('e, 'c, 'f, 'q, 'r) call \<Rightarrow> bool" where
  "is_Do (Do_call c req v resp err) = True"
| "is_Do (NewRequest_call c meth u p options req err) = False"

fun call_error :: "('e, 'c, 'f, 'q, 'r) call \<Rightarrow> 'e option" where
  "call_error (Do_call c req v resp err) = err"
| "call_error (NewRequest_call c meth u p options req err) = err"

fun failed_NewRequest :: "('e, 'c, 'f, 'q, 'r) call \<Rightarrow> bool" where
  "failed_NewRequest (NewRequest_call c meth u p options req err) = (err \<noteq> None)"
| "failed_NewRequest (Do_call c req v resp err) = False"

fun verbs :: "('e, 'c, 'f, 'q, 'r) call list \<Rightarrow> string list" where
  "verbs [] = []"
| "verbs (NewRequest_call c meth u p options req err # cs) = meth # verbs cs"
| "verbs (Do_call c req v resp err # cs) = verbs cs"

definition Do_count :: "('e, 'c, 'f, 'q, 'r) call list \<Rightarrow> nat" where
  "Do_count cs = length (filter is_Do cs)"

fun target_addr :: "target \<Rightarrow> addr option" where
  "target_addr Nil_target = None"
| "target_addr (MergeRequestApprovals_ptr a) = Some a"
| "target_addr (MergeRequest_ptr a) = Some a"

text \<open>
  The client leaves the object at address \<open>a\<close> alone: \<open>NewRequest\<close> never changes
  it, and \<open>Do\<close> changes it only when \<open>a\<close> is the decode target it was given.
\<close>

definition client_keeps ::
  "('p, 'e, 'c, 'f, 'q, 'r, 't, 'u, 'mr, 'w) env \<Rightarrow> addr \<Rightarrow> bool" where
  "client_keeps env a \<longleftrightarrow>
     (\<forall>c meth u p options st.
        a < length (heap st) \<longrightarrow>
        a < length (heap (snd (NewRequest env c meth u p options st))) \<and>
        heap (snd (NewRequest env c meth u p options st)) ! a = heap st ! a) \<and>
     (\<forall>c req v st.
        a < length (heap st) \<longrightarrow> target_addr v \<noteq> Some a \<longrightarrow>
        a < length (heap (snd (Do env c req v st))) \<and>
        heap (snd (Do env c req v st)) ! a = heap st ! a)"

text \<open>
  At most one request/response cycle: at most one \<open>Do\<close> among at most two calls,
  no call at all when the project identifier was rejected, and no \<open>Do\<close> when
  \<open>NewRequest\<close> returned an error.
\<close>

definition single_cycle :: "bool \<Rightarrow> ('e, 'c, 'f, 'q, 'r) call list \<Rightarrow> bool" where
  "single_cycle rejected cs \<longleftrightarrow>
     Do_count cs \<le> 1 \<and> length cs \<le> 2 \<and>
     (rejected \<longrightarrow> cs = []) \<and>
     (list_ex failed_NewRequest cs \<longrightarrow> Do_count cs = 0)"

text \<open>The object at address \<open>a\<close> is still there, unchanged, in \<open>st'\<close>.\<close>

definition kept :: "addr \<Rightarrow> ('c, 't, 'u, 'mr, 'w) mem \<Rightarrow> ('c, 't, 'u, 'mr, 'w) mem \<Rightarrow> bool" where
  "kept a st st' \<longleftrightarrow> a < length (heap st') \<and> heap st' ! a = heap st ! a"

section \<open>The common shape of the struct-returning methods\<close>

text \<open>
  \<open>ApproveMergeRequest\<close>, \<open>ChangeApprovalConfiguration\<close>,
  \<open>ChangeAllowedApprovers\<close> and \<open>ChangeProjectMergeRequestApprovalConfiguration\<close>
  differ in the verb, the path, the options and the struct they decode into, and in
  nothing else. \<open>request_decode\<close> is that body with the four as arguments; each
  method is shown below to be an instance of it, so a property of the body is proved once.
\<close>

definition request_decode ::
  "('p, 'e, 'c, 'f, 'q, 'r, 't, 'u, 'mr, 'w) env \<Rightarrow> addr option \<Rightarrow> 'p \<Rightarrow> string \<Rightarrow> (string \<Rightarrow> string)
   \<Rightarrow> payload \<Rightarrow> ('c, 't, 'u, 'mr) obj \<Rightarrow> (addr \<Rightarrow> target)
         \<Rightarrow> 'f list \<Rightarrow> ('c, 't, 'u, 'mr, 'w) mem
   \<Rightarrow> (addr option \<times> 'r option \<times> 'e option) outcome \<times> ('c, 't, 'u, 'mr, 'w) mem \<times> ('e, 'c, 'f, 'q, 'r) call list" where
  "request_decode env s pid meth path payload zero ptr options st =
     (case parseID env pid of
        (project, Some err) \<Rightarrow> (Return (None, None, Some err), st, [])
      | (project, None) \<Rightarrow>
          (let u = path project
           in case load_client s st of
                None \<Rightarrow> (Panic, st, [])
              | Some c \<Rightarrow>
                  (case NewRequest env c meth u payload options st of
                     ((req, Some err), st1) \<Rightarrow>
                       (Return (None, None, Some err), st1,
                        [NewRequest_call c meth u payload options req (Some err)])
                   | ((req, None), st1) \<Rightarrow>
                       (let called = [NewRequest_call c meth u payload options req None];
                            (m, st2) = new_obj zero st1
                        in case load_client s st2 of
                             None \<Rightarrow> (Panic, st2, called)
                           | Some c' \<Rightarrow>
                               (case Do env c' req (ptr m) st2 of
                                  ((resp, Some err), st3) \<Rightarrow>
                                    (Return (None, resp, Some err), st3,
                                     called @ [Do_call c' req (ptr m) resp (Some err)])
                                | ((resp, None), st3) \<Rightarrow>
                                    (Return (Some m, resp, None), st3,
                                     called @ [Do_call c' req (ptr m) resp None]))))))"

section \<open>A stand-in client\<close>

text \<open>
  A small client to run the methods on concrete inputs. Client \<open>0\<close> cannot build a
  request; client \<open>1\<close> builds it and gets an error response from the server; any other
  client gets a response and decodes it into the target. \<open>world\<close> counts the requests
  sent.
\<close>

datatype test_pid = Int_pid int | String_pid string | Other_pid

definition test_parseID :: "test_pid \<Rightarrow> string \<times> string option" where
  "test_parseID p =
     (case p of
        Int_pid i \<Rightarrow> (fmt_d i, None)
      | String_pid v \<Rightarrow> (v, None)
      | Other_pid \<Rightarrow> ([], Some ''invalid ID type''))"

definition test_pathEscape :: "string \<Rightarrow> string" where
  "test_pathEscape v = concat (map (\<lambda>c. if c = CHR ''/'' then ''%2F'' else [c]) v)"

type_synonym test_mem = "(nat, unit, unit, nat, nat) mem"

definition test_NewRequest ::
  "nat \<Rightarrow> string \<Rightarrow> string \<Rightarrow> payload \<Rightarrow> unit list \<Rightarrow> test_mem
   \<Rightarrow> ((string \<times> string) option \<times> string option) \<times> test_mem" where
  "test_NewRequest c meth u p options st =
     (if c = 0 then ((None, Some ''no base URL''), st) else ((Some (meth, u), None), st))"

definition test_decode :: "target \<Rightarrow> (nat, unit, unit, nat) obj list \<Rightarrow> (nat, unit, unit, nat) obj list" where
  "test_decode v h =
     (case v of
        Nil_target \<Rightarrow> h
      | MergeRequestApprovals_ptr a \<Rightarrow>
          h[a := MergeRequestApprovals_obj (zero_MergeRequestApprovals\<lparr>ApprovalsLeft := 1\<rparr>)]
      | MergeRequest_ptr a \<Rightarrow> h[a := MergeRequest_obj 42])"

definition test_Do ::
  "nat \<Rightarrow> (string \<times> string) option \<Rightarrow> target \<Rightarrow> test_mem
   \<Rightarrow> (nat option \<times> string option) \<times> test_mem" where
  "test_Do c req v st =
     (if c = 1 then ((Some 404, Some ''404 Not Found''), st\<lparr>world := Suc (world st)\<rparr>)
      else ((Some 200, None), st\<lparr>heap := test_decode v (heap st), world := Suc (world st)\<rparr>))"

definition test_env ::
  "(test_pid, string, nat, unit, string \<times> string, nat, unit, unit, nat, nat) env" where
  "test_env = \<lparr> parseID = test_parseID, pathEscape = test_pathEscape,
                NewRequest = test_NewRequest, Do = test_Do, zero_MergeRequest = 0 \<rparr>"

text \<open>
  The service struct at address 0 and one options struct for each method that takes
  options, at addresses 1 to 4; the next \<open>new\<close> gives address 5.
\<close>

definition test_mem :: "nat \<Rightarrow> test_mem" where
  "test_mem c =
     \<lparr> heap = [Service_obj \<lparr>client = c\<rparr>,
               ApproveMergeRequestOptions_obj \<lparr>SHA = Some ''abc''\<rparr>,
               ChangeMergeRequestApprovalConfigurationOptions_obj
                 \<lparr>ChangeMergeRequestApprovalConfigurationOptions.ApprovalsRequired = Some 2\<rparr>,
               ChangeMergeRequestAllowedApproversOptions_obj
                 \<lparr>ApproverIDs = [5, 9], ApproverGroupIDs = []\<rparr>,
               ProjectMergeRequestApprovalSettings_obj
                 \<lparr>ProjectMergeRequestApprovalSettings.ApprovalsBeforeMerge = Some 1,
                  DisableOverridingApproversPerMergeRequest = None,
                  MergeRequestsAuthorApproval = Some False,
                  MergeRequestsDisableCommittersApproval = None,
                  ResetApprovalsOnPush = Some True\<rparr>],
       world = 0 \<rparr>"

section \<open>Runs of the methods\<close>

lemmas obs = result_of_def mem_of_def calls_of_def

lemma ApproveMergeRequest_shape:
  "ApproveMergeRequest env s pid mr opt options st =
   request_decode env s pid ''POST''
     (\<lambda>project. ''projects/'' @ pathEscape env project @ ''/merge_requests/'' @ fmt_d mr @ ''/approve'')
     (ApproveMergeRequestOptions_ptr opt) (MergeRequestApprovals_obj zero_MergeRequestApprovals)
     MergeRequestApprovals_ptr options st"
  unfolding ApproveMergeRequest_def request_decode_def by (rule refl)

lemma ChangeApprovalConfiguration_shape:
  "ChangeApprovalConfiguration env s pid mr opt options st =
   request_decode env s pid ''POST''
     (\<lambda>project. ''projects/'' @ pathEscape env project @ ''/merge_requests/'' @ fmt_d mr @ ''/approvals'')
     (ChangeMergeRequestApprovalConfigurationOptions_ptr opt) (MergeRequest_obj (zero_MergeRequest env))
     MergeRequest_ptr options st"
  unfolding ChangeApprovalConfiguration_def request_decode_def by (rule refl)

lemma ChangeAllowedApprovers_shape:
  "ChangeAllowedApprovers env s pid mr opt options st =
   request_decode env s pid ''PUT''
     (\<lambda>project. ''projects/'' @ pathEscape env project @ ''/merge_requests/'' @ fmt_d mr @ ''/approvers'')
     (ChangeMergeRequestAllowedApproversOptions_ptr opt) (MergeRequest_obj (zero_MergeRequest env))
     MergeRequest_ptr options st"
  unfolding ChangeAllowedApprovers_def request_decode_def by (rule refl)

lemma ChangeProjectMergeRequestApprovalConfiguration_shape:
  "ChangeProjectMergeRequestApprovalConfiguration env s pid opt options st =
   request_decode env s pid ''POST''
     (\<lambda>project. ''projects/'' @ pathEscape env project @ ''/approvals'')
     (ProjectMergeRequestApprovalSettings_ptr opt) (MergeRequestApprovals_obj zero_MergeRequestApprovals)
     MergeRequestApprovals_ptr options st"
  unfolding ChangeProjectMergeRequestApprovalConfiguration_def request_decode_def by (rule refl)

lemma request_decode_runs:
  fixes env s pid meth path payload zero ptr options st
  defines "R \<equiv> request_decode env s pid meth path payload zero ptr options st"
  obtains
    (Rejected) project e where
      "parseID env pid = (project, Some e)"
      "R = (Return (None, None, Some e), st, [])"
  | (No_receiver) project where
      "parseID env pid = (project, None)" "load_client s st = None"
      "R = (Panic, st, [])"
  | (Not_built) project c req e st1 where
      "parseID env pid = (project, None)" "load_client s st = Some c"
      "NewRequest env c meth (path project) payload options st = ((req, Some e), st1)"
      "R = (Return (None, None, Some e), st1,
            [NewRequest_call c meth (path project) payload options req (Some e)])"
  | (Receiver_lost) project c req st1 where
      "parseID env pid = (project, None)" "load_client s st = Some c"
      "NewRequest env c meth (path project) payload options st = ((req, None), st1)"
      "load_client s (st1\<lparr>heap := heap st1 @ [zero]\<rparr>) = None"
      "R = (Panic, st1\<lparr>heap := heap st1 @ [zero]\<rparr>,
            [NewRequest_call c meth (path project) payload options req None])"
  | (Failed) project c req st1 c' resp e st3 where
      "parseID env pid = (project, None)" "load_client s st = Some c"
      "NewRequest env c meth (path project) payload options st = ((req, None), st1)"
      "load_client s (st1\<lparr>heap := heap st1 @ [zero]\<rparr>) = Some c'"
      "Do env c' req (ptr (length (heap st1))) (st1\<lparr>heap := heap st1 @ [zero]\<rparr>)
         = ((resp, Some e), st3)"
      "R = (Return (None, resp, Some e), st3,
            [NewRequest_call c meth (path project) payload options req None,
             Do_call c' req (ptr (length (heap st1))) resp (Some e)])"
  | (Decoded) project c req st1 c' resp st3 where
      "parseID env pid = (project, None)" "load_client s st = Some c"
      "NewRequest env c meth (path project) payload options st = ((req, None), st1)"
      "load_client s (st1\<lparr>heap := heap st1 @ [zero]\<rparr>) = Some c'"
      "Do env c' req (ptr (length (heap st1))) (st1\<lparr>heap := heap st1 @ [zero]\<rparr>)
         = ((resp, None), st3)"
      "R = (Return (Some (length (heap st1)), resp, None), st3,
            [NewRequest_call c meth (path project) payload options req None,
             Do_call c' req (ptr (length (heap st1))) resp None])"
proof (cases "parseID env pid")
  case (Pair project perr)
  show thesis
  proof (cases perr)
    case (Some e)
    then show thesis using Pair Rejected by (simp add: R_def request_decode_def)
  next
    case None
    note parsed = Pair[unfolded None]
    show thesis
    proof (cases "load_client s st")
      case None
      then show thesis using parsed No_receiver by (simp add: R_def request_decode_def)
    next
      case (Some c)
      obtain req nerr st1 where
        nr: "NewRequest env c meth (path project) payload options st = ((req, nerr), st1)"
        by (metis surj_pair)
      show thesis
      proof (cases nerr)
        case (Some e)
        then show thesis
          using parsed \<open>load_client s st = Some c\<close> nr Not_built
          by (simp add: R_def request_decode_def)
      next
        case None
        note built = nr[unfolded None]
        let ?st2 = "st1\<lparr>heap := heap st1 @ [zero]\<rparr>"
        show thesis
        proof (cases "load_client s ?st2")
          case None
          then show thesis
            using parsed \<open>load_client s st = Some c\<close> built Receiver_lost
            by (simp add: R_def request_decode_def new_obj_def)
        next
          case (Some c')
          obtain resp derr st3 where
            d: "Do env c' req (ptr (length (heap st1))) ?st2 = ((resp, derr), st3)"
            by (metis surj_pair)
          show thesis
          proof (cases derr)
            case None
            then show thesis
              using parsed \<open>load_client s st = Some c\<close> built Some d Decoded
              by (simp add: R_def request_decode_def new_obj_def)
          next
            case (Some e)
            then show thesis
              using parsed \<open>load_client s st = Some c\<close> built \<open>load_client s ?st2 = Some c'\<close> d Failed
              by (simp add: R_def request_decode_def new_obj_def)
          qed
        qed
      qed
    qed
  qed
qed

lemma UnapproveMergeRequest_runs:
  fixes env s pid mr options st
  defines "R \<equiv> UnapproveMergeRequest env s pid mr options st"
  defines "path \<equiv> \<lambda>project. ''projects/'' @ pathEscape env project @ ''/merge_requests/'' @ fmt_d mr @ ''/unapprove''"
  obtains
    (Rejected) project e where
      "parseID env pid = (project, Some e)"
      "R = (Return (None, Some e), st, [])"
  | (No_receiver) project where
      "parseID env pid = (project, None)" "load_client s st = None"
      "R = (Panic, st, [])"
  | (Not_built) project c req e st1 where
      "parseID env pid = (project, None)" "load_client s st = Some c"
      "NewRequest env c ''POST'' (path project) Nil_payload options st = ((req, Some e), st1)"
      "R = (Return (None, Some e), st1,
            [NewRequest_call c ''POST'' (path project) Nil_payload options req (Some e)])"
  | (Receiver_lost) project c req st1 where
      "parseID env pid = (project, None)" "load_client s st = Some c"
      "NewRequest env c ''POST'' (path project) Nil_payload options st = ((req, None), st1)"
      "load_client s st1 = None"
      "R = (Panic, st1, [NewRequest_call c ''POST'' (path project) Nil_payload options req None])"
  | (Done) project c req st1 c' resp err st2 where
      "parseID env pid = (project, None)" "load_client s st = Some c"
      "NewRequest env c ''POST'' (path project) Nil_payload options st = ((req, None), st1)"
      "load_client s st1 = Some c'"
      "Do env c' req Nil_target st1 = ((resp, err), st2)"
      "R = (Return (resp, err), st2,
            [NewRequest_call c ''POST'' (path project) Nil_payload options req None,
             Do_call c' req Nil_target resp err])"
proof (cases "parseID env pid")
  case (Pair project perr)
  show thesis
  proof (cases perr)
    case (Some e)
    then show thesis using Pair Rejected by (simp add: R_def UnapproveMergeRequest_def)
  next
    case None
    note parsed = Pair[unfolded None]
    show thesis
    proof (cases "load_client s st")
      case None
      then show thesis using parsed No_receiver by (simp add: R_def UnapproveMergeRequest_def)
    next
      case (Some c)
      obtain req nerr st1 where
        nr: "NewRequest env c ''POST'' (path project) Nil_payload options st = ((req, nerr), st1)"
        by (metis surj_pair)
      show thesis
      proof (cases nerr)
        case (Some e)
        then show thesis
          using parsed \<open>load_client s st = Some c\<close> nr Not_built
          by (simp add: R_def UnapproveMergeRequest_def path_def)
      next
        case None
        note built = nr[unfolded None]
        show thesis
        proof (cases "load_client s st1")
          case None
          then show thesis
            using parsed \<open>load_client s st = Some c\<close> built Receiver_lost
            by (simp add: R_def UnapproveMergeRequest_def path_def)
        next
          case (Some c')
          obtain resp derr st2 where d: "Do env c' req Nil_target st1 = ((resp, derr), st2)"
            by (metis surj_pair)
          then show thesis
            using parsed \<open>load_client s st = Some c\<close> built Some Done
            by (simp add: R_def UnapproveMergeRequest_def path_def)
        qed
      qed
    qed
  qed
qed

lemma request_decode_rejected:
  "snd (parseID env pid) = Some e \<Longrightarrow>
   request_decode env s pid meth path payload zero ptr options st = (Return (None, None, Some e), st, [])"
  by (cases "parseID env pid") (simp add: request_decode_def)

lemma request_decode_Do_error:
  "Do_call c q v r (Some e)
        \<in> set (calls_of (request_decode env s pid meth path payload zero ptr options st))
   \<Longrightarrow> result_of (request_decode env s pid meth path payload zero ptr options st) = Return (None, r, Some e)"
  by (rule request_decode_runs[where env=env and s=s and pid=pid and meth=meth and path=path
        and payload=payload and zero=zero and ptr=ptr and options=options and st=st])
     (auto simp: obs)

lemma request_decode_single_cycle:
  "single_cycle (snd (parseID env pid) \<noteq> None)
     (calls_of (request_decode env s pid meth path payload zero ptr options st))"
  by (rule request_decode_runs[where env=env and s=s and pid=pid and meth=meth and path=path
        and payload=payload and zero=zero and ptr=ptr and options=options and st=st])
     (auto simp: obs single_cycle_def Do_count_def)

lemma keeps_NewRequest:
  "client_keeps env a \<Longrightarrow> a < length (heap st) \<Longrightarrow>
   NewRequest env c meth u p options st = (r, st1) \<Longrightarrow> kept a st st1"
  unfolding client_keeps_def kept_def by (metis snd_conv)

lemma keeps_Do:
  "client_keeps env a \<Longrightarrow> a < length (heap st) \<Longrightarrow> target_addr v \<noteq> Some a \<Longrightarrow>
   Do env c req v st = (r, st1) \<Longrightarrow> kept a st st1"
  unfolding client_keeps_def kept_def by (metis snd_conv)

lemma kept_refl: "a < length (heap st) \<Longrightarrow> kept a st st"
  by (simp add: kept_def)

lemma kept_new: "kept a st st1 \<Longrightarrow> kept a st (st1\<lparr>heap := heap st1 @ [v]\<rparr>)"
  by (simp add: kept_def nth_append)

lemma kept_trans: "kept a st st1 \<Longrightarrow> kept a st1 st2 \<Longrightarrow> kept a st st2"
  by (simp add: kept_def)

lemma kept_after_Do:
  assumes keeps: "client_keeps env a" and k1: "kept a st st1"
    and ptr: "target_addr v = Some (length (heap st1))"
    and d: "Do env c req v (st1\<lparr>heap := heap st1 @ [zero]\<rparr>) = (r, st3)"
  shows "kept a st st3"
proof -
  let ?st2 = "st1\<lparr>heap := heap st1 @ [zero]\<rparr>"
  have k2: "kept a st ?st2" by (rule kept_new[OF k1])
  have "a < length (heap st1)" using k1 by (simp add: kept_def)
  then have "target_addr v \<noteq> Some a" by (simp add: ptr)
  moreover have "a < length (heap ?st2)" using k2 by (simp add: kept_def)
  ultimately have "kept a ?st2 st3" using keeps_Do[OF keeps _ _ d] by blast
  then show ?thesis using k2 kept_trans by blast
qed

lemma request_decode_keeps:
  assumes keeps: "client_keeps env a" and a: "a < length (heap st)"
    and ptr: "\<And>x. target_addr (ptr x) = Some x"
  shows "kept a st (mem_of (request_decode env s pid meth path payload zero ptr options st))"
proof (cases rule: request_decode_runs[where env=env and s=s and pid=pid and meth=meth
        and path=path and payload=payload and zero=zero and ptr=ptr and options=options
        and st=st])
  case (Rejected project e)
  then show ?thesis using a by (simp add: obs kept_refl)
next
  case (No_receiver project)
  then show ?thesis using a by (simp add: obs kept_refl)
next
  case (Not_built project c req e st1)
  then show ?thesis using keeps_NewRequest[OF keeps a] by (simp add: obs)
next
  case (Receiver_lost project c req st1)
  then show ?thesis using kept_new[OF keeps_NewRequest[OF keeps a]] by (simp add: obs)
next
  case (Failed project c req st1 c' resp e st3)
  have k1: "kept a st st1" by (rule keeps_NewRequest[OF keeps a Failed(3)])
  have "kept a st st3" by (rule kept_after_Do[OF keeps k1 ptr Failed(5)])
  then show ?thesis using Failed(6) by (simp add: obs)
next
  case (Decoded project c req st1 c' resp st3)
  have k1: "kept a st st1" by (rule keeps_NewRequest[OF keeps a Decoded(3)])
  have "kept a st st3" by (rule kept_after_Do[OF keeps k1 ptr Decoded(5)])
  then show ?thesis using Decoded(6) by (simp add: obs)
qed

lemma UnapproveMergeRequest_keeps:
  assumes keeps: "client_keeps env a" and a: "a < length (heap st)"
  shows "kept a st (mem_of (UnapproveMergeRequest env s pid mr options st))"
proof (cases rule: UnapproveMergeRequest_runs[where env=env and s=s and pid=pid and mr=mr
        and options=options and st=st])
  case (Rejected project e)
  then show ?thesis using a by (simp add: obs kept_refl)
next
  case (No_receiver project)
  then show ?thesis using a by (simp add: obs kept_refl)
next
  case (Not_built project c req e st1)
  then show ?thesis using keeps_NewRequest[OF keeps a] by (simp add: obs)
next
  case (Receiver_lost project c req st1)
  then show ?thesis using keeps_NewRequest[OF keeps a] by (simp add: obs)
next
  case (Done project c req st1 c' resp err st2)
  have k1: "kept a st st1" using keeps_NewRequest[OF keeps a Done(3)] .
  then have "a < length (heap st1)" by (simp add: kept_def)
  then have "kept a st1 st2" using keeps_Do[OF keeps _ _ Done(5)] by simp
  then show ?thesis using Done(6) k1 kept_trans by (fastforce simp: obs)
qed

lemma request_decode_origin:
  "result_of (request_decode env s pid meth path payload zero ptr options st) = Return (m, resp, Some e)
   \<Longrightarrow> snd (parseID env pid) = Some e
       \<or> Some e \<in> set (map call_error (calls_of (request_decode env s pid meth path payload zero ptr options st)))"
  by (rule request_decode_runs[where env=env and s=s and pid=pid and meth=meth and path=path
        and payload=payload and zero=zero and ptr=ptr and options=options and st=st])
     (auto simp: obs)

lemma UnapproveMergeRequest_origin:
  "result_of (UnapproveMergeRequest env s pid mr options st) = Return (resp, Some e)
   \<Longrightarrow> snd (parseID env pid) = Some e
       \<or> Some e \<in> set (map call_error (calls_of (UnapproveMergeRequest env s pid mr options st)))"
  by (rule UnapproveMergeRequest_runs[where env=env and s=s and pid=pid and mr=mr
        and options=options and st=st])
     (auto simp: obs)

lemma request_decode_target:
  "result_of (request_decode env s pid meth path payload zero ptr options st) = Return (m, resp, None)
   \<Longrightarrow> \<exists>a c q. m = Some a \<and>
         Do_call c q (ptr a) resp None
           \<in> set (calls_of (request_decode env s pid meth path payload zero ptr options st))"
  by (rule request_decode_runs[where env=env and s=s and pid=pid and meth=meth and path=path
        and payload=payload and zero=zero and ptr=ptr and options=options and st=st])
     (auto simp: obs)

lemma UnapproveMergeRequest_target:
  "Do_call c q v r e \<in> set (calls_of (UnapproveMergeRequest env s pid mr options st))
   \<Longrightarrow> v = Nil_target"
  by (rule UnapproveMergeRequest_runs[where env=env and s=s and pid=pid and mr=mr
        and options=options and st=st])
     (auto simp: obs)

lemma UnapproveMergeRequest_Do_error:
  "Do_call c q v r (Some e) \<in> set (calls_of (UnapproveMergeRequest env s pid mr options st))
   \<Longrightarrow> result_of (UnapproveMergeRequest env s pid mr options st) = Return (r, Some e)"
  by (rule UnapproveMergeRequest_runs[where env=env and s=s and pid=pid and mr=mr
        and options=options and st=st])
     (auto simp: obs)

lemma UnapproveMergeRequest_single_cycle:
  "single_cycle (snd (parseID env pid) \<noteq> None)
     (calls_of (UnapproveMergeRequest env s pid mr options st))"
  by (rule UnapproveMergeRequest_runs[where env=env and s=s and pid=pid and mr=mr
        and options=options and st=st])
     (auto simp: obs single_cycle_def Do_count_def)

lemma UnapproveMergeRequest_rejected:
  "snd (parseID env pid) = Some e \<Longrightarrow>
   UnapproveMergeRequest env s pid mr options st = (Return (None, Some e), st, [])"
  by (cases "parseID env pid") (simp add: UnapproveMergeRequest_def)

lemma request_decode_verbs:
  "set (verbs (calls_of (request_decode env s pid meth path payload zero ptr options st))) \<subseteq> {meth}"
  by (rule request_decode_runs[where env=env and s=s and pid=pid and meth=meth and path=path
        and payload=payload and zero=zero and ptr=ptr and options=options and st=st])
     (auto simp: obs)

lemma UnapproveMergeRequest_verbs:
  "set (verbs (calls_of (UnapproveMergeRequest env s pid mr options st))) \<subseteq> {''POST''}"
  by (rule UnapproveMergeRequest_runs[where env=env and s=s and pid=pid and mr=mr
        and options=options and st=st])
     (simp_all add: obs)

lemma request_decode_request:
  assumes parsed: "parseID env pid = (project, None)" and recv: "load_client s st = Some c"
  shows "\<exists>req err st1.
           NewRequest env c meth (path project) payload options st = ((req, err), st1)
         \<and> calls_of (request_decode env s pid meth path payload zero ptr options st) \<noteq> []
         \<and> hd (calls_of (request_decode env s pid meth path payload zero ptr options st))
             = NewRequest_call c meth (path project) payload options req err
         \<and> (\<forall>m resp.
              result_of (request_decode env s pid meth path payload zero ptr options st)
                = Return (m, resp, None) \<longrightarrow>
              (\<exists>c'. m = Some (length (heap st1))
                  \<and> calls_of (request_decode env s pid meth path payload zero ptr options st)
                      = [NewRequest_call c meth (path project) payload options req None,
                         Do_call c' req (ptr (length (heap st1))) resp None]
                  \<and> Do env c' req (ptr (length (heap st1))) (st1\<lparr>heap := heap st1 @ [zero]\<rparr>)
                      = ((resp, None),
                         mem_of (request_decode env s pid meth path payload zero ptr options st))))"
  using parsed recv
  by (cases rule: request_decode_runs[where env=env and s=s and pid=pid and meth=meth and path=path
        and payload=payload and zero=zero and ptr=ptr and options=options and st=st])
     (simp_all add: obs)

subsection \<open>Runs on the stand-in client\<close>

lemmas test_defs = test_env_def test_parseID_def test_pathEscape_def test_NewRequest_def
  test_Do_def test_decode_def test_mem_def load_client_def new_obj_def fmt_d_def digits.simps
  Let_def

lemma test_env_keeps: "client_keeps test_env a"
  unfolding client_keeps_def
  by (auto simp: test_env_def test_NewRequest_def test_Do_def test_decode_def split: target.splits)

lemma fmt_d_examples:
  "fmt_d 0 = ''0''" "fmt_d 7 = ''7''" "fmt_d 42 = ''42''" "fmt_d 1305 = ''1305''"
  "fmt_d (- 12) = ''-12''"
  by (simp_all add: fmt_d_def digits.simps)

section \<open>What the methods guarantee\<close>

text \<open>
  C1, as it holds. \<open>UnapproveMergeRequest\<close> has no result struct: it hands the
  untyped nil to \<open>Do\<close> as decode target and returns the response and the error
  only. The run below is a successful call of it on the stand-in client.
\<close>

theorem UnapproveMergeRequest_decodes_nothing:
  "UnapproveMergeRequest test_env (Some 0) (Int_pid 7) 3 [] (test_mem 2)
   = (Return (Some 200, None),
      \<lparr>heap = heap (test_mem 2), world = 1\<rparr>,
      [NewRequest_call 2 ''POST'' ''projects/7/merge_requests/3/unapprove'' Nil_payload []
         (Some (''POST'', ''projects/7/merge_requests/3/unapprove'')) None,
       Do_call 2 (Some (''POST'', ''projects/7/merge_requests/3/unapprove'')) Nil_target
         (Some 200) None])"
  by (simp add: UnapproveMergeRequest_def test_defs)

text \<open>
  C1, amended. A successful call of one of the four struct-returning methods returns a
  non-nil pointer, and that pointer is the decode target it gave to \<open>Do\<close>: a
  \<open>MergeRequestApprovals\<close> for \<open>ApproveMergeRequest\<close> and
  \<open>ChangeProjectMergeRequestApprovalConfiguration\<close>, a \<open>MergeRequest\<close> for
  \<open>ChangeApprovalConfiguration\<close> and \<open>ChangeAllowedApprovers\<close>.
  \<open>UnapproveMergeRequest\<close> always gives \<open>Do\<close> the nil target.
\<close>

theorem result_struct_is_decode_target:
  "(result_of (ApproveMergeRequest env s pid mr opt options st) = Return (m, resp, None) \<longrightarrow>
      (\<exists>a c q. m = Some a \<and>
         Do_call c q (MergeRequestApprovals_ptr a) resp None
           \<in> set (calls_of (ApproveMergeRequest env s pid mr opt options st))))
 \<and> (result_of (ChangeApprovalConfiguration env s pid mr opt options st) = Return (m, resp, None) \<longrightarrow>
      (\<exists>a c q. m = Some a \<and>
         Do_call c q (MergeRequest_ptr a) resp None
           \<in> set (calls_of (ChangeApprovalConfiguration env s pid mr opt options st))))
 \<and> (result_of (ChangeAllowedApprovers env s pid mr opt options st) = Return (m, resp, None) \<longrightarrow>
      (\<exists>a c q. m = Some a \<and>
         Do_call c q (MergeRequest_ptr a) resp None
           \<in> set (calls_of (ChangeAllowedApprovers env s pid mr opt options st))))
 \<and> (result_of (ChangeProjectMergeRequestApprovalConfiguration env s pid opt options st) = Return (m, resp, None) \<longrightarrow>
      (\<exists>a c q. m = Some a \<and>
         Do_call c q (MergeRequestApprovals_ptr a) resp None
                 \<in> set (calls_of (ChangeProjectMergeRequestApprovalConfiguration env s pid opt options st))))
 \<and> (Do_call c q v r e
       \<in> set (calls_of (UnapproveMergeRequest env s pid mr options st)) \<longrightarrow>
      v = Nil_target)"
  unfolding ApproveMergeRequest_shape ChangeApprovalConfiguration_shape ChangeAllowedApprovers_shape
        ChangeProjectMergeRequestApprovalConfiguration_shape
  by (intro conjI impI request_decode_target UnapproveMergeRequest_target; assumption)

theorem result_struct_is_decode_target_witness:
  "result_of (ApproveMergeRequest test_env (Some 0) (Int_pid 7) 3 (Some 1) [] (test_mem 2))
     = Return (Some 5, Some 200, None)
 \<and> (\<exists>a c q. Some 5 = Some a \<and>
        Do_call c q (MergeRequestApprovals_ptr a) (Some 200) None
          \<in> set (calls_of (ApproveMergeRequest
                test_env (Some 0) (Int_pid 7) 3 (Some 1) [] (test_mem 2))))
 \<and> result_of (ChangeApprovalConfiguration
       test_env (Some 0) (Int_pid 7) 3 (Some 2) [] (test_mem 2))
     = Return (Some 5, Some 200, None)
 \<and> (\<exists>a c q. Some 5 = Some a \<and>
        Do_call c q (MergeRequest_ptr a) (Some 200) None
          \<in> set (calls_of (ChangeApprovalConfiguration
                test_env (Some 0) (Int_pid 7) 3 (Some 2) [] (test_mem 2))))
 \<and> result_of (ChangeAllowedApprovers
       test_env (Some 0) (Int_pid 7) 3 (Some 3) [] (test_mem 2))
     = Return (Some 5, Some 200, None)
 \<and> (\<exists>a c q. Some 5 = Some a \<and>
        Do_call c q (MergeRequest_ptr a) (Some 200) None
          \<in> set (calls_of (ChangeAllowedApprovers
                test_env (Some 0) (Int_pid 7) 3 (Some 3) [] (test_mem 2))))
 \<and> result_of (ChangeProjectMergeRequestApprovalConfiguration
       test_env (Some 0) (Int_pid 7) (Some 4) [] (test_mem 2))
     = Return (Some 5, Some 200, None)
 \<and> (\<exists>a c q. Some 5 = Some a \<and>
        Do_call c q (MergeRequestApprovals_ptr a) (Some 200) None
          \<in> set (calls_of (ChangeProjectMergeRequestApprovalConfiguration
                test_env (Some 0) (Int_pid 7) (Some 4) [] (test_mem 2))))
 \<and> Do_call 2 (Some (''POST'', ''projects/7/merge_requests/3/unapprove'')) (Nil_target) (Some 200) (None)
     \<in> set (calls_of (UnapproveMergeRequest test_env (Some 0) (Int_pid 7) 3 [] (test_mem 2)))
 \<and> Nil_target = Nil_target"
proof -
  have approve: "result_of (ApproveMergeRequest
        test_env (Some 0) (Int_pid 7) 3 (Some 1) [] (test_mem 2))
      = Return (Some 5, Some 200, None)"
    by (simp add: obs ApproveMergeRequest_def test_defs)

  have conf: "result_of (ChangeApprovalConfiguration
        test_env (Some 0) (Int_pid 7) 3 (Some 2) [] (test_mem 2))
      = Return (Some 5, Some 200, None)"
    by (simp add: obs ChangeApprovalConfiguration_def test_defs)

  have approvers: "result_of (ChangeAllowedApprovers
        test_env (Some 0) (Int_pid 7) 3 (Some 3) [] (test_mem 2))
      = Return (Some 5, Some 200, None)"
    by (simp add: obs ChangeAllowedApprovers_def test_defs)

  have project: "result_of (ChangeProjectMergeRequestApprovalConfiguration
        test_env (Some 0) (Int_pid 7) (Some 4) [] (test_mem 2))
      = Return (Some 5, Some 200, None)"
    by (simp add: obs ChangeProjectMergeRequestApprovalConfiguration_def test_defs)

  have unapprove: "Do_call 2 (Some (''POST'', ''projects/7/merge_requests/3/unapprove'')) (Nil_target) (Some 200) (None)
      \<in> set (calls_of (UnapproveMergeRequest
            test_env (Some 0) (Int_pid 7) 3 [] (test_mem 2)))"
    by (simp add: obs UnapproveMergeRequest_def test_defs)
  show ?thesis
    using approve conf approvers project unapprove
      result_struct_is_decode_target [THEN conjunct1, THEN mp, OF approve]
      result_struct_is_decode_target [THEN conjunct2, THEN conjunct1, THEN mp, OF conf]
      result_struct_is_decode_target [THEN conjunct2, THEN conjunct2, THEN conjunct1, THEN mp, OF approvers]
      result_struct_is_decode_target [THEN conjunct2, THEN conjunct2, THEN conjunct2, THEN conjunct1, THEN mp, OF project]
      result_struct_is_decode_target [THEN conjunct2, THEN conjunct2, THEN conjunct2, THEN conjunct2, THEN mp, OF unapprove]
    by blast
qed

text \<open>
  C2, as it holds. An error need not come from the client: when \<open>parseID\<close> rejects
  the identifier the method returns that error before it has called the client at all.
\<close>

theorem parse_error_precedes_client:
  "ApproveMergeRequest test_env (Some 0) (Other_pid) 3 (Some 1) [] (test_mem 2)
   = (Return (None, None, Some ''invalid ID type''), test_mem 2, [])"
  by (simp add: ApproveMergeRequest_def test_env_def test_parseID_def)

text \<open>
  C2, amended. Every error a method returns is the error \<open>parseID\<close> returned or the
  error one of its calls on the client (\<open>NewRequest\<close> or \<open>Do\<close>) returned; no method
  makes an error of its own.
\<close>

theorem error_origin:
  "(result_of (ApproveMergeRequest env s pid mr opt options st) = Return (m, resp, Some e) \<longrightarrow>
      snd (parseID env pid) = Some e
      \<or> Some e \<in> set (map call_error (calls_of (ApproveMergeRequest env s pid mr opt options st))))
 \<and> (result_of (UnapproveMergeRequest env s pid mr options st) = Return (resp, Some e) \<longrightarrow>
      snd (parseID env pid) = Some e
      \<or> Some e \<in> set (map call_error (calls_of (UnapproveMergeRequest env s pid mr options st))))
 \<and> (result_of (ChangeApprovalConfiguration env s pid mr opt options st) = Return (m, resp, Some e) \<longrightarrow>
      snd (parseID env pid) = Some e
      \<or> Some e \<in> set (map call_error (calls_of (ChangeApprovalConfiguration env s pid mr opt options st))))
 \<and> (result_of (ChangeAllowedApprovers env s pid mr opt options st) = Return (m, resp, Some e) \<longrightarrow>
      snd (parseID env pid) = Some e
      \<or> Some e \<in> set (map call_error (calls_of (ChangeAllowedApprovers env s pid mr opt options st))))
 \<and> (result_of (ChangeProjectMergeRequestApprovalConfiguration env s pid opt options st) = Return (m, resp, Some e) \<longrightarrow>
      snd (parseID env pid) = Some e
      \<or> Some e \<in> set (map call_error (calls_of (ChangeProjectMergeRequestApprovalConfiguration env s pid opt options st))))"
  unfolding ApproveMergeRequest_shape ChangeApprovalConfiguration_shape ChangeAllowedApprovers_shape
        ChangeProjectMergeRequestApprovalConfiguration_shape
  by (intro conjI impI request_decode_origin UnapproveMergeRequest_origin; assumption)

theorem error_origin_witness:
  "result_of (ApproveMergeRequest test_env (Some 0) (Int_pid 7) 3 (Some 1) [] (test_mem 1))
     = Return (None, Some 404, Some ''404 Not Found'')
 \<and> (snd (parseID test_env (Int_pid 7)) = Some ''404 Not Found''
      \<or> Some ''404 Not Found''
          \<in> set (map call_error (calls_of (ApproveMergeRequest
                test_env (Some 0) (Int_pid 7) 3 (Some 1) [] (test_mem 1)))))
 \<and> result_of (UnapproveMergeRequest test_env (Some 0) (Int_pid 7) 3 [] (test_mem 1))
     = Return (Some 404, Some ''404 Not Found'')
 \<and> (snd (parseID test_env (Int_pid 7)) = Some ''404 Not Found''
      \<or> Some ''404 Not Found''
          \<in> set (map call_error (calls_of (UnapproveMergeRequest
                test_env (Some 0) (Int_pid 7) 3 [] (test_mem 1)))))
 \<and> result_of (ChangeApprovalConfiguration
       test_env (Some 0) (Int_pid 7) 3 (Some 2) [] (test_mem 1))
     = Return (None, Some 404, Some ''404 Not Found'')
 \<and> (snd (parseID test_env (Int_pid 7)) = Some ''404 Not Found''
      \<or> Some ''404 Not Found''
          \<in> set (map call_error (calls_of (ChangeApprovalConfiguration
                test_env (Some 0) (Int_pid 7) 3 (Some 2) [] (test_mem 1)))))
 \<and> result_of (ChangeAllowedApprovers
       test_env (Some 0) (Int_pid 7) 3 (Some 3) [] (test_mem 1))
     = Return (None, Some 404, Some ''404 Not Found'')
 \<and> (snd (parseID test_env (Int_pid 7)) = Some ''404 Not Found''
      \<or> Some ''404 Not Found''
          \<in> set (map call_error (calls_of (ChangeAllowedApprovers
                test_env (Some 0) (Int_pid 7) 3 (Some 3) [] (test_mem 1)))))
 \<and> result_of (ChangeProjectMergeRequestApprovalConfiguration
       test_env (Some 0) (Int_pid 7) (Some 4) [] (test_mem 1))
     = Return (None, Some 404, Some ''404 Not Found'')
 \<and> (snd (parseID test_env (Int_pid 7)) = Some ''404 Not Found''
      \<or> Some ''404 Not Found''
          \<in> set (map call_error (calls_of (ChangeProjectMergeRequestApprovalConfiguration
                test_env (Some 0) (Int_pid 7) (Some 4) [] (test_mem 1)))))"
proof -
  have approve: "result_of (ApproveMergeRequest
        test_env (Some 0) (Int_pid 7) 3 (Some 1) [] (test_mem 1))
      = Return (None, Some 404, Some ''404 Not Found'')"
    by (simp add: obs ApproveMergeRequest_def test_defs)

  have unapprove: "result_of (UnapproveMergeRequest
        test_env (Some 0) (Int_pid 7) 3 [] (test_mem 1))
      = Return (Some 404, Some ''404 Not Found'')"
    by (simp add: obs UnapproveMergeRequest_def test_defs)

  have conf: "result_of (ChangeApprovalConfiguration
        test_env (Some 0) (Int_pid 7) 3 (Some 2) [] (test_mem 1))
      = Return (None, Some 404, Some ''404 Not Found'')"
    by (simp add: obs ChangeApprovalConfiguration_def test_defs)

  have approvers: "result_of (ChangeAllowedApprovers
        test_env (Some 0) (Int_pid 7) 3 (Some 3) [] (test_mem 1))
      = Return (None, Some 404, Some ''404 Not Found'')"
    by (simp add: obs ChangeAllowedApprovers_def test_defs)

  have project: "result_of (ChangeProjectMergeRequestApprovalConfiguration
        test_env (Some 0) (Int_pid 7) (Some 4) [] (test_mem 1))
      = Return (None, Some 404, Some ''404 Not Found'')"
    by (simp add: obs ChangeProjectMergeRequestApprovalConfiguration_def test_defs)

  show ?thesis
    using approve unapprove conf approvers project
      error_origin [THEN conjunct1, THEN mp, OF approve]
      error_origin [THEN conjunct2, THEN conjunct1, THEN mp, OF unapprove]
      error_origin [THEN conjunct2, THEN conjunct2, THEN conjunct1, THEN mp, OF conf]
      error_origin [THEN conjunct2, THEN conjunct2, THEN conjunct2, THEN conjunct1, THEN mp, OF approvers]
      error_origin [THEN conjunct2, THEN conjunct2, THEN conjunct2, THEN conjunct2, THEN mp, OF project]
    by blast
qed

text \<open>
  C3. Let \<open>parseID\<close> accept \<open>pid\<close> and give \<open>project\<close>. Then
  \<open>ApproveMergeRequest\<close> first asks the client for a \<open>POST\<close> request to
  \<open>projects/<escaped project>/merge_requests/<mr>/approve\<close> (the number printed in
  decimal), passing it the options pointer \<open>opt\<close> (nil or not) for serialization. When
  the call succeeds, that request and no other was given to \<open>Do\<close>, together with a
  freshly allocated zero \<open>MergeRequestApprovals\<close>; the method returns the pointer to
  that struct, and the memory is the one \<open>Do\<close> left, so the struct holds what \<open>Do\<close>
  decoded into it. The receiver is a pointer to a service struct.
\<close>

theorem ApproveMergeRequest_request:
  assumes "parseID env pid = (project, None)" and "load_client s st = Some c"
  shows "\<exists>req err st1.
          NewRequest env c ''POST''
            (''projects/'' @ pathEscape env project @ ''/merge_requests/'' @ fmt_d mr @ ''/approve'')
            (ApproveMergeRequestOptions_ptr opt) options st = ((req, err), st1)
        \<and> calls_of (ApproveMergeRequest env s pid mr opt options st) \<noteq> []
        \<and> hd (calls_of (ApproveMergeRequest env s pid mr opt options st))
            = NewRequest_call c ''POST''
                     (''projects/'' @ pathEscape env project @ ''/merge_requests/'' @ fmt_d mr @ ''/approve'')
                     (ApproveMergeRequestOptions_ptr opt) options req err
        \<and> (\<forall>m resp.
             result_of (ApproveMergeRequest env s pid mr opt options st) = Return (m, resp, None) \<longrightarrow>
             (\<exists>c'. m = Some (length (heap st1))
                 \<and> calls_of (ApproveMergeRequest env s pid mr opt options st)
                     = [NewRequest_call c ''POST''
                     (''projects/'' @ pathEscape env project @ ''/merge_requests/'' @ fmt_d mr @ ''/approve'')
                     (ApproveMergeRequestOptions_ptr opt) options req None,
                        Do_call c' req (MergeRequestApprovals_ptr (length (heap st1))) resp None]
                 \<and> Do env c' req (MergeRequestApprovals_ptr (length (heap st1)))
                       (st1\<lparr>heap := heap st1 @ [MergeRequestApprovals_obj zero_MergeRequestApprovals]\<rparr>)
                     = ((resp, None), mem_of (ApproveMergeRequest env s pid mr opt options st))))"
  unfolding ApproveMergeRequest_shape
  by (rule request_decode_request
        [where path = "\<lambda>project. ''projects/'' @ pathEscape env project @ ''/merge_requests/'' @ fmt_d mr @ ''/approve''",
         OF assms])

theorem ApproveMergeRequest_request_witness:
  "parseID test_env (Int_pid 7) = (''7'', None) \<and> load_client (Some 0) (test_mem 2) = Some 2
 \<and> (\<exists>req err st1.
      NewRequest test_env 2 ''POST''
        (''projects/7/merge_requests/3/approve'')
        (ApproveMergeRequestOptions_ptr (Some 1)) [] (test_mem 2) = ((req, err), st1)
    \<and> calls_of (ApproveMergeRequest
          test_env (Some 0) (Int_pid 7) 3 (Some 1) [] (test_mem 2)) \<noteq> []
    \<and> hd (calls_of (ApproveMergeRequest
          test_env (Some 0) (Int_pid 7) 3 (Some 1) [] (test_mem 2)))
        = NewRequest_call 2 ''POST''
                 (''projects/7/merge_requests/3/approve'')
                 (ApproveMergeRequestOptions_ptr (Some 1)) [] req err
    \<and> (\<forall>m resp.
         result_of (ApproveMergeRequest
               test_env (Some 0) (Int_pid 7) 3 (Some 1)
               [] (test_mem 2)) = Return (m, resp, None) \<longrightarrow>
         (\<exists>c'. m = Some (length (heap st1))
             \<and> calls_of (ApproveMergeRequest
                   test_env (Some 0) (Int_pid 7) 3 (Some 1) [] (test_mem 2))
                 = [NewRequest_call 2 ''POST''
                 (''projects/7/merge_requests/3/approve'')
                 (ApproveMergeRequestOptions_ptr (Some 1)) [] req None,
                    Do_call c' req (MergeRequestApprovals_ptr (length (heap st1))) resp None]
             \<and> Do test_env c' req (MergeRequestApprovals_ptr (length (heap st1)))
                   (st1\<lparr>heap := heap st1 @ [MergeRequestApprovals_obj zero_MergeRequestApprovals]\<rparr>)
                 = ((resp, None), mem_of (ApproveMergeRequest
                       test_env (Some 0) (Int_pid 7) 3 (Some 1) [] (test_mem 2))))))"
proof -
  have parsed: "parseID test_env (Int_pid 7) = (''7'', None)"
    by (simp add: test_defs)
  have receiver: "load_client (Some 0) (test_mem 2) = Some 2"
    by (simp add: test_defs)
  have path: "''projects/'' @ pathEscape test_env ''7'' @ ''/merge_requests/'' @ fmt_d 3 @ ''/approve''
      = ''projects/7/merge_requests/3/approve''"
    by (simp add: test_defs)
  show ?thesis
    using parsed receiver
      ApproveMergeRequest_request [where mr = 3 and opt = "Some 1" and options = "[]",
        OF parsed receiver, unfolded path]
    by blast
qed

text \<open>
  C4. Whenever the client's \<open>Do\<close> returned an error \<open>e\<close> to a method, the method
  returns that same \<open>e\<close>, and its result pointer (if it has one) is nil.
\<close>

theorem Do_error_returned_unchanged:
  "(Do_call c q v r (Some e)
        \<in> set (calls_of (ApproveMergeRequest env s pid mr opt options st)) \<longrightarrow>
      (\<exists>resp. result_of (ApproveMergeRequest env s pid mr opt options st) = Return (None, resp, Some e)))
 \<and> (Do_call c q v r (Some e)
       \<in> set (calls_of (UnapproveMergeRequest env s pid mr options st)) \<longrightarrow>
      (\<exists>resp. result_of (UnapproveMergeRequest env s pid mr options st) = Return (resp, Some e)))
 \<and> (Do_call c q v r (Some e)
       \<in> set (calls_of (ChangeApprovalConfiguration env s pid mr opt options st)) \<longrightarrow>
      (\<exists>resp. result_of (ChangeApprovalConfiguration env s pid mr opt options st) = Return (None, resp, Some e)))
 \<and> (Do_call c q v r (Some e)
       \<in> set (calls_of (ChangeAllowedApprovers env s pid mr opt options st)) \<longrightarrow>
      (\<exists>resp. result_of (ChangeAllowedApprovers env s pid mr opt options st) = Return (None, resp, Some e)))
 \<and> (Do_call c q v r (Some e)
       \<in> set (calls_of (ChangeProjectMergeRequestApprovalConfiguration env s pid opt options st)) \<longrightarrow>
      (\<exists>resp. result_of (ChangeProjectMergeRequestApprovalConfiguration env s pid opt options st) = Return (None, resp, Some e)))"
  by (simp add: ApproveMergeRequest_shape ChangeApprovalConfiguration_shape ChangeAllowedApprovers_shape
        ChangeProjectMergeRequestApprovalConfiguration_shape
        request_decode_Do_error UnapproveMergeRequest_Do_error)

theorem Do_error_returned_unchanged_witness:
  "Do_call 1 (Some (''POST'', ''projects/7/merge_requests/3/approve'')) (MergeRequestApprovals_ptr 5) (Some 404) (Some ''404 Not Found'')
     \<in> set (calls_of (ApproveMergeRequest
           test_env (Some 0) (Int_pid 7) 3 (Some 1) [] (test_mem 1)))
 \<and> (\<exists>resp. result_of (ApproveMergeRequest
       test_env (Some 0) (Int_pid 7) 3 (Some 1) [] (test_mem 1))
        = Return (None, resp, Some ''404 Not Found''))
 \<and> Do_call 1 (Some (''POST'', ''projects/7/merge_requests/3/unapprove'')) (Nil_target) (Some 404) (Some ''404 Not Found'')
     \<in> set (calls_of (UnapproveMergeRequest test_env (Some 0) (Int_pid 7) 3 [] (test_mem 1)))
 \<and> (\<exists>resp. result_of (UnapproveMergeRequest
       test_env (Some 0) (Int_pid 7) 3 [] (test_mem 1))
        = Return (resp, Some ''404 Not Found''))
 \<and> Do_call 1 (Some (''POST'', ''projects/7/merge_requests/3/approvals'')) (MergeRequest_ptr 5) (Some 404) (Some ''404 Not Found'')
     \<in> set (calls_of (ChangeApprovalConfiguration
           test_env (Some 0) (Int_pid 7) 3 (Some 2) [] (test_mem 1)))
 \<and> (\<exists>resp. result_of (ChangeApprovalConfiguration
       test_env (Some 0) (Int_pid 7) 3 (Some 2) [] (test_mem 1))
        = Return (None, resp, Some ''404 Not Found''))
 \<and> Do_call 1 (Some (''PUT'', ''projects/7/merge_requests/3/approvers'')) (MergeRequest_ptr 5) (Some 404) (Some ''404 Not Found'')
     \<in> set (calls_of (ChangeAllowedApprovers
           test_env (Some 0) (Int_pid 7) 3 (Some 3) [] (test_mem 1)))
 \<and> (\<exists>resp. result_of (ChangeAllowedApprovers
       test_env (Some 0) (Int_pid 7) 3 (Some 3) [] (test_mem 1))
        = Return (None, resp, Some ''404 Not Found''))
 \<and> Do_call 1 (Some (''POST'', ''projects/7/approvals'')) (MergeRequestApprovals_ptr 5) (Some 404) (Some ''404 Not Found'')
     \<in> set (calls_of (ChangeProjectMergeRequestApprovalConfiguration
           test_env (Some 0) (Int_pid 7) (Some 4) [] (test_mem 1)))
 \<and> (\<exists>resp. result_of (ChangeProjectMergeRequestApprovalConfiguration
       test_env (Some 0) (Int_pid 7) (Some 4) [] (test_mem 1))
        = Return (None, resp, Some ''404 Not Found''))"
proof -
  have approve: "Do_call 1 (Some (''POST'', ''projects/7/merge_requests/3/approve'')) (MergeRequestApprovals_ptr 5) (Some 404) (Some ''404 Not Found'')
      \<in> set (calls_of (ApproveMergeRequest
            test_env (Some 0) (Int_pid 7) 3 (Some 1) [] (test_mem 1)))"
    by (simp add: obs ApproveMergeRequest_def test_defs)

  have unapprove: "Do_call 1 (Some (''POST'', ''projects/7/merge_requests/3/unapprove'')) (Nil_target) (Some 404) (Some ''404 Not Found'')
      \<in> set (calls_of (UnapproveMergeRequest
            test_env (Some 0) (Int_pid 7) 3 [] (test_mem 1)))"
    by (simp add: obs UnapproveMergeRequest_def test_defs)

  have conf: "Do_call 1 (Some (''POST'', ''projects/7/merge_requests/3/approvals'')) (MergeRequest_ptr 5) (Some 404) (Some ''404 Not Found'')
      \<in> set (calls_of (ChangeApprovalConfiguration
            test_env (Some 0) (Int_pid 7) 3 (Some 2) [] (test_mem 1)))"
    by (simp add: obs ChangeApprovalConfiguration_def test_defs)

  have approvers: "Do_call 1 (Some (''PUT'', ''projects/7/merge_requests/3/approvers'')) (MergeRequest_ptr 5) (Some 404) (Some ''404 Not Found'')
      \<in> set (calls_of (ChangeAllowedApprovers
            test_env (Some 0) (Int_pid 7) 3 (Some 3) [] (test_mem 1)))"
    by (simp add: obs ChangeAllowedApprovers_def test_defs)

  have project: "Do_call 1 (Some (''POST'', ''projects/7/approvals'')) (MergeRequestApprovals_ptr 5) (Some 404) (Some ''404 Not Found'')
      \<in> set (calls_of (ChangeProjectMergeRequestApprovalConfiguration
            test_env (Some 0) (Int_pid 7) (Some 4) [] (test_mem 1)))"
    by (simp add: obs ChangeProjectMergeRequestApprovalConfiguration_def test_defs)

  show ?thesis
    using approve unapprove conf approvers project
      Do_error_returned_unchanged [THEN conjunct1, THEN mp, OF approve]
      Do_error_returned_unchanged [THEN conjunct2, THEN conjunct1, THEN mp, OF unapprove]
      Do_error_returned_unchanged [THEN conjunct2, THEN conjunct2, THEN conjunct1, THEN mp, OF conf]
      Do_error_returned_unchanged [THEN conjunct2, THEN conjunct2, THEN conjunct2, THEN conjunct1, THEN mp, OF approvers]
      Do_error_returned_unchanged [THEN conjunct2, THEN conjunct2, THEN conjunct2, THEN conjunct2, THEN mp, OF project]
    by blast
qed

text \<open>
  C5. Let \<open>parseID\<close> accept \<open>pid\<close>. \<open>ChangeAllowedApprovers\<close> asks the client for
  a \<open>PUT\<close> request to \<open>projects/<escaped project>/merge_requests/<IID>/approvers\<close>,
  passing the pointer to the options (\<open>approver_ids\<close>, \<open>approver_group_ids\<close>); on
  success it returns the pointer to the \<open>MergeRequest\<close> that \<open>Do\<close> decoded into.
  Every request this method builds is a \<open>PUT\<close>; every request the other four methods
  build is a \<open>POST\<close>.
\<close>

theorem ChangeAllowedApprovers_request:
  assumes "parseID env pid = (project, None)" and "load_client s st = Some c"
  shows "(\<exists>req err st1.
          NewRequest env c ''PUT''
            (''projects/'' @ pathEscape env project @ ''/merge_requests/'' @ fmt_d mr @ ''/approvers'')
            (ChangeMergeRequestAllowedApproversOptions_ptr opt) options st = ((req, err), st1)
        \<and> calls_of (ChangeAllowedApprovers env s pid mr opt options st) \<noteq> []
        \<and> hd (calls_of (ChangeAllowedApprovers env s pid mr opt options st))
            = NewRequest_call c ''PUT''
                     (''projects/'' @ pathEscape env project @ ''/merge_requests/'' @ fmt_d mr @ ''/approvers'')
                     (ChangeMergeRequestAllowedApproversOptions_ptr opt) options req err
        \<and> (\<forall>m resp.
             result_of (ChangeAllowedApprovers env s pid mr opt options st) = Return (m, resp, None) \<longrightarrow>
             (\<exists>c'. m = Some (length (heap st1))
                 \<and> calls_of (ChangeAllowedApprovers env s pid mr opt options st)
                     = [NewRequest_call c ''PUT''
                     (''projects/'' @ pathEscape env project @ ''/merge_requests/'' @ fmt_d mr @ ''/approvers'')
                     (ChangeMergeRequestAllowedApproversOptions_ptr opt) options req None,
                        Do_call c' req (MergeRequest_ptr (length (heap st1))) resp None]
                 \<and> Do env c' req (MergeRequest_ptr (length (heap st1)))
                       (st1\<lparr>heap := heap st1 @ [MergeRequest_obj (zero_MergeRequest env)]\<rparr>)
                     = ((resp, None), mem_of (ChangeAllowedApprovers env s pid mr opt options st)))))
      \<and> set (verbs (calls_of (ChangeAllowedApprovers env s pid mr opt options st))) \<subseteq> {''PUT''}
      \<and> set (verbs (calls_of (ApproveMergeRequest env' s' pid' mr' opt' options' st')))
          \<subseteq> {''POST''}
      \<and> set (verbs (calls_of (UnapproveMergeRequest env' s' pid' mr' options' st')))
          \<subseteq> {''POST''}
      \<and> set (verbs (calls_of (ChangeApprovalConfiguration env' s' pid' mr' opt' options' st')))
          \<subseteq> {''POST''}
      \<and> set (verbs (calls_of (ChangeProjectMergeRequestApprovalConfiguration env' s' pid' opt'
                                 options' st')))
          \<subseteq> {''POST''}"
proof -
  have "\<exists>req err st1.
          NewRequest env c ''PUT''
            (''projects/'' @ pathEscape env project @ ''/merge_requests/'' @ fmt_d mr @ ''/approvers'')
            (ChangeMergeRequestAllowedApproversOptions_ptr opt) options st = ((req, err), st1)
        \<and> calls_of (ChangeAllowedApprovers env s pid mr opt options st) \<noteq> []
        \<and> hd (calls_of (ChangeAllowedApprovers env s pid mr opt options st))
            = NewRequest_call c ''PUT''
                     (''projects/'' @ pathEscape env project @ ''/merge_requests/'' @ fmt_d mr @ ''/approvers'')
                     (ChangeMergeRequestAllowedApproversOptions_ptr opt) options req err
        \<and> (\<forall>m resp.
             result_of (ChangeAllowedApprovers env s pid mr opt options st) = Return (m, resp, None) \<longrightarrow>
             (\<exists>c'. m = Some (length (heap st1))
                 \<and> calls_of (ChangeAllowedApprovers env s pid mr opt options st)
                     = [NewRequest_call c ''PUT''
                     (''projects/'' @ pathEscape env project @ ''/merge_requests/'' @ fmt_d mr @ ''/approvers'')
                     (ChangeMergeRequestAllowedApproversOptions_ptr opt) options req None,
                        Do_call c' req (MergeRequest_ptr (length (heap st1))) resp None]
                 \<and> Do env c' req (MergeRequest_ptr (length (heap st1)))
                       (st1\<lparr>heap := heap st1 @ [MergeRequest_obj (zero_MergeRequest env)]\<rparr>)
                     = ((resp, None), mem_of (ChangeAllowedApprovers env s pid mr opt options st))))"
    unfolding ChangeAllowedApprovers_shape
    by (rule request_decode_request
          [where path = "\<lambda>project. ''projects/'' @ pathEscape env project @ ''/merge_requests/'' @ fmt_d mr @ ''/approvers''",
           OF assms])
  then show ?thesis
    unfolding ApproveMergeRequest_shape ChangeApprovalConfiguration_shape
      ChangeAllowedApprovers_shape ChangeProjectMergeRequestApprovalConfiguration_shape
    by (simp only: request_decode_verbs UnapproveMergeRequest_verbs simp_thms)
qed

theorem ChangeAllowedApprovers_request_witness:
  "parseID test_env (Int_pid 7) = (''7'', None) \<and> load_client (Some 0) (test_mem 2) = Some 2
 \<and> (\<exists>req err st1.
      NewRequest test_env 2 ''PUT''
        (''projects/7/merge_requests/3/approvers'')
        (ChangeMergeRequestAllowedApproversOptions_ptr (Some 3))
              [] (test_mem 2) = ((req, err), st1)
    \<and> calls_of (ChangeAllowedApprovers
          test_env (Some 0) (Int_pid 7) 3 (Some 3) [] (test_mem 2)) \<noteq> []
    \<and> hd (calls_of (ChangeAllowedApprovers
          test_env (Some 0) (Int_pid 7) 3 (Some 3) [] (test_mem 2)))
        = NewRequest_call 2 ''PUT''
                 (''projects/7/merge_requests/3/approvers'')
                 (ChangeMergeRequestAllowedApproversOptions_ptr (Some 3)) [] req err
    \<and> (\<forall>m resp.
         result_of (ChangeAllowedApprovers
               test_env (Some 0) (Int_pid 7) 3 (Some 3)
               [] (test_mem 2)) = Return (m, resp, None) \<longrightarrow>
         (\<exists>c'. m = Some (length (heap st1))
             \<and> calls_of (ChangeAllowedApprovers
                   test_env (Some 0) (Int_pid 7) 3 (Some 3) [] (test_mem 2))
                 = [NewRequest_call 2 ''PUT''
                 (''projects/7/merge_requests/3/approvers'')
                 (ChangeMergeRequestAllowedApproversOptions_ptr (Some 3)) [] req None,
                    Do_call c' req (MergeRequest_ptr (length (heap st1))) resp None]
             \<and> Do test_env c' req (MergeRequest_ptr (length (heap st1)))
                   (st1\<lparr>heap := heap st1 @ [MergeRequest_obj (zero_MergeRequest test_env)]\<rparr>)
                 = ((resp, None), mem_of (ChangeAllowedApprovers
                       test_env (Some 0) (Int_pid 7) 3 (Some 3) [] (test_mem 2))))))
 \<and> set (verbs (calls_of (ChangeAllowedApprovers
       test_env (Some 0) (Int_pid 7) 3 (Some 3) [] (test_mem 2))))
     \<subseteq> {''PUT''}
 \<and> set (verbs (calls_of (ApproveMergeRequest
       test_env (Some 0) (Int_pid 7) 3 (Some 1) [] (test_mem 2))))
     \<subseteq> {''POST''}
 \<and> set (verbs (calls_of (UnapproveMergeRequest
       test_env (Some 0) (Int_pid 7) 3 [] (test_mem 2))))
     \<subseteq> {''POST''}
 \<and> set (verbs (calls_of (ChangeApprovalConfiguration
       test_env (Some 0) (Int_pid 7) 3 (Some 2) [] (test_mem 2))))
     \<subseteq> {''POST''}
 \<and> set (verbs (calls_of (ChangeProjectMergeRequestApprovalConfiguration
       test_env (Some 0) (Int_pid 7) (Some 4) [] (test_mem 2))))
     \<subseteq> {''POST''}"
proof -
  have parsed: "parseID test_env (Int_pid 7) = (''7'', None)"
    by (simp add: test_defs)
  have receiver: "load_client (Some 0) (test_mem 2) = Some 2"
    by (simp add: test_defs)
  have path: "''projects/'' @ pathEscape test_env ''7'' @ ''/merge_requests/'' @ fmt_d 3 @ ''/approvers''
      = ''projects/7/merge_requests/3/approvers''"
    by (simp add: test_defs)
  show ?thesis
    using parsed receiver
      ChangeAllowedApprovers_request [where mr = 3 and opt = "Some 3" and options = "[]",
        OF parsed receiver, unfolded path,
        where env' = test_env and s' = "Some 0" and pid' = "Int_pid 7" and mr' = 3
          and options' = "[]" and st' = "test_mem 2"]
    by blast
qed

text \<open>
  C6. Let \<open>parseID\<close> accept \<open>pid\<close>.
  \<open>ChangeProjectMergeRequestApprovalConfiguration\<close> asks the client for a \<open>POST\<close>
  request to \<open>projects/<escaped project>/approvals\<close>: the escaped identifier between
  two fixed segments, with no merge-request number (the method has none). On success it
  returns the pointer to the \<open>MergeRequestApprovals\<close> that \<open>Do\<close> decoded into.
\<close>

theorem ChangeProjectMergeRequestApprovalConfiguration_request:
  assumes "parseID env pid = (project, None)" and "load_client s st = Some c"
  shows "\<exists>req err st1.
          NewRequest env c ''POST''
            (''projects/'' @ pathEscape env project @ ''/approvals'')
            (ProjectMergeRequestApprovalSettings_ptr opt) options st = ((req, err), st1)
        \<and> calls_of (ChangeProjectMergeRequestApprovalConfiguration env s pid opt options st) \<noteq> []
        \<and> hd (calls_of (ChangeProjectMergeRequestApprovalConfiguration env s pid opt options st))
            = NewRequest_call c ''POST''
                     (''projects/'' @ pathEscape env project @ ''/approvals'')
                     (ProjectMergeRequestApprovalSettings_ptr opt) options req err
        \<and> (\<forall>m resp.
             result_of (ChangeProjectMergeRequestApprovalConfiguration env s pid opt options st) = Return (m, resp, None) \<longrightarrow>
             (\<exists>c'. m = Some (length (heap st1))
                 \<and> calls_of (ChangeProjectMergeRequestApprovalConfiguration env s pid opt options st)
                     = [NewRequest_call c ''POST''
                     (''projects/'' @ pathEscape env project @ ''/approvals'')
                     (ProjectMergeRequestApprovalSettings_ptr opt) options req None,
                        Do_call c' req (MergeRequestApprovals_ptr (length (heap st1))) resp None]
                 \<and> Do env c' req (MergeRequestApprovals_ptr (length (heap st1)))
                       (st1\<lparr>heap := heap st1 @ [MergeRequestApprovals_obj zero_MergeRequestApprovals]\<rparr>)
                     = ((resp, None), mem_of (ChangeProjectMergeRequestApprovalConfiguration env s pid opt options st))))"
  unfolding ChangeProjectMergeRequestApprovalConfiguration_shape
  by (rule request_decode_request
        [where path = "\<lambda>project. ''projects/'' @ pathEscape env project @ ''/approvals''",
         OF assms])

theorem ChangeProjectMergeRequestApprovalConfiguration_request_witness:
  "parseID test_env (Int_pid 7) = (''7'', None) \<and> load_client (Some 0) (test_mem 2) = Some 2
 \<and> (\<exists>req err st1.
      NewRequest test_env 2 ''POST''
        (''projects/7/approvals'')
        (ProjectMergeRequestApprovalSettings_ptr (Some 4)) [] (test_mem 2) = ((req, err), st1)
    \<and> calls_of (ChangeProjectMergeRequestApprovalConfiguration
          test_env (Some 0) (Int_pid 7) (Some 4) [] (test_mem 2)) \<noteq> []
    \<and> hd (calls_of (ChangeProjectMergeRequestApprovalConfiguration
          test_env (Some 0) (Int_pid 7) (Some 4) [] (test_mem 2)))
        = NewRequest_call 2 ''POST''
                 (''projects/7/approvals'')
                 (ProjectMergeRequestApprovalSettings_ptr (Some 4)) [] req err
    \<and> (\<forall>m resp.
         result_of (ChangeProjectMergeRequestApprovalConfiguration
               test_env (Some 0) (Int_pid 7) (Some 4)
               [] (test_mem 2)) = Return (m, resp, None) \<longrightarrow>
         (\<exists>c'. m = Some (length (heap st1))
             \<and> calls_of (ChangeProjectMergeRequestApprovalConfiguration
                   test_env (Some 0) (Int_pid 7) (Some 4) [] (test_mem 2))
                 = [NewRequest_call 2 ''POST''
                 (''projects/7/approvals'')
                 (ProjectMergeRequestApprovalSettings_ptr (Some 4)) [] req None,
                    Do_call c' req (MergeRequestApprovals_ptr (length (heap st1))) resp None]
             \<and> Do test_env c' req (MergeRequestApprovals_ptr (length (heap st1)))
                   (st1\<lparr>heap := heap st1 @ [MergeRequestApprovals_obj zero_MergeRequestApprovals]\<rparr>)
                 = ((resp, None), mem_of (ChangeProjectMergeRequestApprovalConfiguration
                       test_env (Some 0) (Int_pid 7) (Some 4) [] (test_mem 2))))))"
proof -
  have parsed: "parseID test_env (Int_pid 7) = (''7'', None)"
    by (simp add: test_defs)
  have receiver: "load_client (Some 0) (test_mem 2) = Some 2"
    by (simp add: test_defs)
  have path: "''projects/'' @ pathEscape test_env ''7'' @ ''/approvals''
      = ''projects/7/approvals''"
    by (simp add: test_defs)
  show ?thesis
    using parsed receiver
      ChangeProjectMergeRequestApprovalConfiguration_request [where opt = "Some 4" and options = "[]",
        OF parsed receiver, unfolded path]
    by blast
qed

text \<open>
  C7. Every method makes at most one call of \<open>Do\<close> (among at most two calls on the
  client), none at all when \<open>parseID\<close> rejected the identifier, and no \<open>Do\<close> when
  \<open>NewRequest\<close> returned an error: a failed request is never tried again.
\<close>

theorem single_request_cycle:
  "single_cycle (snd (parseID env pid) \<noteq> None)
     (calls_of (ApproveMergeRequest env s pid mr opt options st))
 \<and> single_cycle (snd (parseID env pid) \<noteq> None)
     (calls_of (UnapproveMergeRequest env s pid mr options st))
 \<and> single_cycle (snd (parseID env pid) \<noteq> None)
     (calls_of (ChangeApprovalConfiguration env s pid mr opt options st))
 \<and> single_cycle (snd (parseID env pid) \<noteq> None)
     (calls_of (ChangeAllowedApprovers env s pid mr opt options st))
 \<and> single_cycle (snd (parseID env pid) \<noteq> None)
     (calls_of (ChangeProjectMergeRequestApprovalConfiguration env s pid opt options st))"
  unfolding ApproveMergeRequest_shape ChangeApprovalConfiguration_shape ChangeAllowedApprovers_shape
        ChangeProjectMergeRequestApprovalConfiguration_shape
  by (intro conjI request_decode_single_cycle UnapproveMergeRequest_single_cycle)

theorem single_request_cycle_witness:
  "snd (parseID test_env Other_pid) \<noteq> None
 \<and> calls_of (ApproveMergeRequest
       test_env (Some 0) (Other_pid) 3 (Some 1) [] (test_mem 2)) = []
 \<and> list_ex failed_NewRequest (calls_of (ApproveMergeRequest
       test_env (Some 0) (Int_pid 7) 3 (Some 1) [] (test_mem 0)))
 \<and> Do_count (calls_of (ApproveMergeRequest
       test_env (Some 0) (Int_pid 7) 3 (Some 1) [] (test_mem 0))) = 0
 \<and> Do_count (calls_of (ApproveMergeRequest
       test_env (Some 0) (Int_pid 7) 3 (Some 1) [] (test_mem 2))) \<le> 1
 \<and> calls_of (UnapproveMergeRequest test_env (Some 0) (Other_pid) 3 [] (test_mem 2)) = []
 \<and> list_ex failed_NewRequest (calls_of (UnapproveMergeRequest
       test_env (Some 0) (Int_pid 7) 3 [] (test_mem 0)))
 \<and> Do_count (calls_of (UnapproveMergeRequest
       test_env (Some 0) (Int_pid 7) 3 [] (test_mem 0))) = 0
 \<and> Do_count (calls_of (UnapproveMergeRequest
       test_env (Some 0) (Int_pid 7) 3 [] (test_mem 2))) \<le> 1
 \<and> calls_of (ChangeApprovalConfiguration
       test_env (Some 0) (Other_pid) 3 (Some 2) [] (test_mem 2)) = []
 \<and> list_ex failed_NewRequest (calls_of (ChangeApprovalConfiguration
       test_env (Some 0) (Int_pid 7) 3 (Some 2) [] (test_mem 0)))
 \<and> Do_count (calls_of (ChangeApprovalConfiguration
       test_env (Some 0) (Int_pid 7) 3 (Some 2) [] (test_mem 0))) = 0
 \<and> Do_count (calls_of (ChangeApprovalConfiguration
       test_env (Some 0) (Int_pid 7) 3 (Some 2) [] (test_mem 2))) \<le> 1
 \<and> calls_of (ChangeAllowedApprovers
       test_env (Some 0) (Other_pid) 3 (Some 3) [] (test_mem 2)) = []
 \<and> list_ex failed_NewRequest (calls_of (ChangeAllowedApprovers
       test_env (Some 0) (Int_pid 7) 3 (Some 3) [] (test_mem 0)))
 \<and> Do_count (calls_of (ChangeAllowedApprovers
       test_env (Some 0) (Int_pid 7) 3 (Some 3) [] (test_mem 0))) = 0
 \<and> Do_count (calls_of (ChangeAllowedApprovers
       test_env (Some 0) (Int_pid 7) 3 (Some 3) [] (test_mem 2))) \<le> 1
 \<and> calls_of (ChangeProjectMergeRequestApprovalConfiguration
       test_env (Some 0) (Other_pid) (Some 4) [] (test_mem 2)) = []
 \<and> list_ex failed_NewRequest (calls_of (ChangeProjectMergeRequestApprovalConfiguration
       test_env (Some 0) (Int_pid 7) (Some 4) [] (test_mem 0)))
 \<and> Do_count (calls_of (ChangeProjectMergeRequestApprovalConfiguration
       test_env (Some 0) (Int_pid 7) (Some 4) [] (test_mem 0))) = 0
 \<and> Do_count (calls_of (ChangeProjectMergeRequestApprovalConfiguration
       test_env (Some 0) (Int_pid 7) (Some 4) [] (test_mem 2))) \<le> 1"
proof -
  have rejected: "snd (parseID test_env Other_pid) \<noteq> None"
    by (simp add: test_env_def test_parseID_def)

  have approve_not_built: "list_ex failed_NewRequest (calls_of (ApproveMergeRequest
        test_env (Some 0) (Int_pid 7) 3 (Some 1) [] (test_mem 0)))"
    by (simp add: obs ApproveMergeRequest_def test_defs)
  have approve: "calls_of (ApproveMergeRequest
        test_env (Some 0) (Other_pid) 3 (Some 1) [] (test_mem 2)) = []
      \<and> Do_count (calls_of (ApproveMergeRequest
            test_env (Some 0) (Int_pid 7) 3 (Some 1) [] (test_mem 0))) = 0
      \<and> Do_count (calls_of (ApproveMergeRequest
            test_env (Some 0) (Int_pid 7) 3 (Some 1) [] (test_mem 2))) \<le> 1"
    using rejected approve_not_built
      single_request_cycle [where env=test_env and s="Some 0" and pid=Other_pid and mr=3
            and opt="Some 1"
          and options="[]" and st="test_mem 2",
        THEN conjunct1]
      single_request_cycle [where env=test_env and s="Some 0" and pid="Int_pid 7" and mr=3
            and opt="Some 1"
          and options="[]" and st="test_mem 0",
        THEN conjunct1]
      single_request_cycle [where env=test_env and s="Some 0" and pid="Int_pid 7" and mr=3
            and opt="Some 1"
          and options="[]" and st="test_mem 2",
        THEN conjunct1]
    unfolding single_cycle_def by blast

  have unapprove_not_built: "list_ex failed_NewRequest (calls_of (UnapproveMergeRequest
        test_env (Some 0) (Int_pid 7) 3 [] (test_mem 0)))"
    by (simp add: obs UnapproveMergeRequest_def test_defs)
  have unapprove: "calls_of (UnapproveMergeRequest
        test_env (Some 0) (Other_pid) 3 [] (test_mem 2)) = []
      \<and> Do_count (calls_of (UnapproveMergeRequest
            test_env (Some 0) (Int_pid 7) 3 [] (test_mem 0))) = 0
      \<and> Do_count (calls_of (UnapproveMergeRequest
            test_env (Some 0) (Int_pid 7) 3 [] (test_mem 2))) \<le> 1"
    using rejected unapprove_not_built
      single_request_cycle [where env=test_env and s="Some 0" and pid=Other_pid and mr=3
            and opt="Some 1"
          and options="[]" and st="test_mem 2",
        THEN conjunct2, THEN conjunct1]
      single_request_cycle [where env=test_env and s="Some 0" and pid="Int_pid 7" and mr=3
            and opt="Some 1"
          and options="[]" and st="test_mem 0",
        THEN conjunct2, THEN conjunct1]
      single_request_cycle [where env=test_env and s="Some 0" and pid="Int_pid 7" and mr=3
            and opt="Some 1"
          and options="[]" and st="test_mem 2",
        THEN conjunct2, THEN conjunct1]
    unfolding single_cycle_def by blast

  have conf_not_built: "list_ex failed_NewRequest (calls_of (ChangeApprovalConfiguration
        test_env (Some 0) (Int_pid 7) 3 (Some 2) [] (test_mem 0)))"
    by (simp add: obs ChangeApprovalConfiguration_def test_defs)
  have conf: "calls_of (ChangeApprovalConfiguration
        test_env (Some 0) (Other_pid) 3 (Some 2) [] (test_mem 2)) = []
      \<and> Do_count (calls_of (ChangeApprovalConfiguration
            test_env (Some 0) (Int_pid 7) 3 (Some 2) [] (test_mem 0))) = 0
      \<and> Do_count (calls_of (ChangeApprovalConfiguration
            test_env (Some 0) (Int_pid 7) 3 (Some 2) [] (test_mem 2))) \<le> 1"
    using rejected conf_not_built
      single_request_cycle [where env=test_env and s="Some 0" and pid=Other_pid and mr=3
            and opt="Some 2"
          and options="[]" and st="test_mem 2",
        THEN conjunct2, THEN conjunct2, THEN conjunct1]
      single_request_cycle [where env=test_env and s="Some 0" and pid="Int_pid 7" and mr=3
            and opt="Some 2"
          and options="[]" and st="test_mem 0",
        THEN conjunct2, THEN conjunct2, THEN conjunct1]
      single_request_cycle [where env=test_env and s="Some 0" and pid="Int_pid 7" and mr=3
            and opt="Some 2"
          and options="[]" and st="test_mem 2",
        THEN conjunct2, THEN conjunct2, THEN conjunct1]
    unfolding single_cycle_def by blast

  have approvers_not_built: "list_ex failed_NewRequest (calls_of (ChangeAllowedApprovers
        test_env (Some 0) (Int_pid 7) 3 (Some 3) [] (test_mem 0)))"
    by (simp add: obs ChangeAllowedApprovers_def test_defs)
  have approvers: "calls_of (ChangeAllowedApprovers
        test_env (Some 0) (Other_pid) 3 (Some 3) [] (test_mem 2)) = []
      \<and> Do_count (calls_of (ChangeAllowedApprovers
            test_env (Some 0) (Int_pid 7) 3 (Some 3) [] (test_mem 0))) = 0
      \<and> Do_count (calls_of (ChangeAllowedApprovers
            test_env (Some 0) (Int_pid 7) 3 (Some 3) [] (test_mem 2))) \<le> 1"
    using rejected approvers_not_built
      single_request_cycle [where env=test_env and s="Some 0" and pid=Other_pid and mr=3
            and opt="Some 3"
          and options="[]" and st="test_mem 2",
        THEN conjunct2, THEN conjunct2, THEN conjunct2, THEN conjunct1]
      single_request_cycle [where env=test_env and s="Some 0" and pid="Int_pid 7" and mr=3
            and opt="Some 3"
          and options="[]" and st="test_mem 0",
        THEN conjunct2, THEN conjunct2, THEN conjunct2, THEN conjunct1]
      single_request_cycle [where env=test_env and s="Some 0" and pid="Int_pid 7" and mr=3
            and opt="Some 3"
          and options="[]" and st="test_mem 2",
        THEN conjunct2, THEN conjunct2, THEN conjunct2, THEN conjunct1]
    unfolding single_cycle_def by blast

  have project_not_built: "list_ex failed_NewRequest (calls_of (ChangeProjectMergeRequestApprovalConfiguration
        test_env (Some 0) (Int_pid 7) (Some 4) [] (test_mem 0)))"
    by (simp add: obs ChangeProjectMergeRequestApprovalConfiguration_def test_defs)
  have project: "calls_of (ChangeProjectMergeRequestApprovalConfiguration
        test_env (Some 0) (Other_pid) (Some 4) [] (test_mem 2)) = []
      \<and> Do_count (calls_of (ChangeProjectMergeRequestApprovalConfiguration
            test_env (Some 0) (Int_pid 7) (Some 4) [] (test_mem 0))) = 0
      \<and> Do_count (calls_of (ChangeProjectMergeRequestApprovalConfiguration
            test_env (Some 0) (Int_pid 7) (Some 4) [] (test_mem 2))) \<le> 1"
    using rejected project_not_built
      single_request_cycle [where env=test_env and s="Some 0" and pid=Other_pid and mr=3
            and opt="Some 4"
          and options="[]" and st="test_mem 2",
        THEN conjunct2, THEN conjunct2, THEN conjunct2, THEN conjunct2]
      single_request_cycle [where env=test_env and s="Some 0" and pid="Int_pid 7" and mr=3
            and opt="Some 4"
          and options="[]" and st="test_mem 0",
        THEN conjunct2, THEN conjunct2, THEN conjunct2, THEN conjunct2]
      single_request_cycle [where env=test_env and s="Some 0" and pid="Int_pid 7" and mr=3
            and opt="Some 4"
          and options="[]" and st="test_mem 2",
        THEN conjunct2, THEN conjunct2, THEN conjunct2, THEN conjunct2]
    unfolding single_cycle_def by blast

  show ?thesis
    using rejected approve_not_built unapprove_not_built conf_not_built approvers_not_built project_not_built approve unapprove conf approvers project
    by blast
qed

text \<open>
  C8. No method changes an object it did not allocate. Let the client leave the object
  at address \<open>a\<close> alone (\<open>client_keeps\<close>: whatever the network call does, it does
  not write there). Then after each method the object at \<open>a\<close> is still there and is
  the same. With \<open>a\<close> the receiver's address this is the service struct and its
  \<open>client\<close> field, with \<open>a\<close> the address behind \<open>opt\<close> it is the options struct.
  The identifier \<open>pid\<close> is passed by value and is only read. The one write of a
  method is the allocation of its result struct, at a fresh address.
\<close>

theorem local_objects_kept:
  assumes "client_keeps env a" and "a < length (heap st)"
  shows "kept a st (mem_of (ApproveMergeRequest env s pid mr opt options st))
      \<and> kept a st (mem_of (UnapproveMergeRequest env s pid mr options st))
      \<and> kept a st (mem_of (ChangeApprovalConfiguration env s pid mr opt options st))
      \<and> kept a st (mem_of (ChangeAllowedApprovers env s pid mr opt options st))
      \<and> kept a st (mem_of (ChangeProjectMergeRequestApprovalConfiguration env s pid opt options st))"
  unfolding ApproveMergeRequest_shape ChangeApprovalConfiguration_shape ChangeAllowedApprovers_shape
        ChangeProjectMergeRequestApprovalConfiguration_shape
  by (intro conjI request_decode_keeps [OF assms] UnapproveMergeRequest_keeps [OF assms])
     simp_all

theorem local_objects_kept_witness:
  "client_keeps test_env 0 \<and> 0 < length (heap (test_mem 2))
 \<and> kept 0 (test_mem 2) (mem_of (ApproveMergeRequest
       test_env (Some 0) (Int_pid 7) 3 (Some 1) [] (test_mem 2)))
 \<and> kept 0 (test_mem 2) (mem_of (UnapproveMergeRequest
       test_env (Some 0) (Int_pid 7) 3 [] (test_mem 2)))
 \<and> kept 0 (test_mem 2) (mem_of (ChangeApprovalConfiguration
       test_env (Some 0) (Int_pid 7) 3 (Some 2) [] (test_mem 2)))
 \<and> kept 0 (test_mem 2) (mem_of (ChangeAllowedApprovers
       test_env (Some 0) (Int_pid 7) 3 (Some 3) [] (test_mem 2)))
 \<and> kept 0 (test_mem 2) (mem_of (ChangeProjectMergeRequestApprovalConfiguration
       test_env (Some 0) (Int_pid 7) (Some 4) [] (test_mem 2)))
 \<and> client_keeps test_env 1 \<and> 1 < length (heap (test_mem 2))
 \<and> kept 1 (test_mem 2) (mem_of (ApproveMergeRequest
       test_env (Some 0) (Int_pid 7) 3 (Some 1) [] (test_mem 2)))
 \<and> kept 1 (test_mem 2) (mem_of (UnapproveMergeRequest
       test_env (Some 0) (Int_pid 7) 3 [] (test_mem 2)))
 \<and> kept 1 (test_mem 2) (mem_of (ChangeApprovalConfiguration
       test_env (Some 0) (Int_pid 7) 3 (Some 2) [] (test_mem 2)))
 \<and> kept 1 (test_mem 2) (mem_of (ChangeAllowedApprovers
       test_env (Some 0) (Int_pid 7) 3 (Some 3) [] (test_mem 2)))
 \<and> kept 1 (test_mem 2) (mem_of (ChangeProjectMergeRequestApprovalConfiguration
       test_env (Some 0) (Int_pid 7) (Some 4) [] (test_mem 2)))"
proof -
  have service: "0 < length (heap (test_mem 2))" and options: "1 < length (heap (test_mem 2))"
    by (simp_all add: test_mem_def)
  show ?thesis
    using service options test_env_keeps [of 0] test_env_keeps [of 1]
      local_objects_kept [where s="Some 0" and pid="Int_pid 7" and mr=3
            and opt="Some 1" and options="[]",
        OF test_env_keeps service, THEN conjunct1]
      local_objects_kept [where s="Some 0" and pid="Int_pid 7" and mr=3
            and opt="Some 1" and options="[]",
        OF test_env_keeps options, THEN conjunct1]
      local_objects_kept [where s="Some 0" and pid="Int_pid 7" and mr=3
            and opt="Some 1" and options="[]",
        OF test_env_keeps service, THEN conjunct2, THEN conjunct1]
      local_objects_kept [where s="Some 0" and pid="Int_pid 7" and mr=3
            and opt="Some 1" and options="[]",
        OF test_env_keeps options, THEN conjunct2, THEN conjunct1]
      local_objects_kept [where s="Some 0" and pid="Int_pid 7" and mr=3
            and opt="Some 2" and options="[]",
        OF test_env_keeps service, THEN conjunct2, THEN conjunct2, THEN conjunct1]
      local_objects_kept [where s="Some 0" and pid="Int_pid 7" and mr=3
            and opt="Some 2" and options="[]",
        OF test_env_keeps options, THEN conjunct2, THEN conjunct2, THEN conjunct1]
      local_objects_kept [where s="Some 0" and pid="Int_pid 7" and mr=3
            and opt="Some 3" and options="[]",
        OF test_env_keeps service, THEN conjunct2, THEN conjunct2, THEN conjunct2, THEN conjunct1]
      local_objects_kept [where s="Some 0" and pid="Int_pid 7" and mr=3
            and opt="Some 3" and options="[]",
        OF test_env_keeps options, THEN conjunct2, THEN conjunct2, THEN conjunct2, THEN conjunct1]
      local_objects_kept [where s="Some 0" and pid="Int_pid 7" and mr=3
            and opt="Some 4" and options="[]",
        OF test_env_keeps service, THEN conjunct2, THEN conjunct2, THEN conjunct2, THEN conjunct2]
      local_objects_kept [where s="Some 0" and pid="Int_pid 7" and mr=3
            and opt="Some 4" and options="[]",
        OF test_env_keeps options, THEN conjunct2, THEN conjunct2, THEN conjunct2, THEN conjunct2]
    by blast
qed

text \<open>
  C9. If \<open>parseID\<close> rejects the project identifier, every method returns that error
  with a nil response and (where it has one) a nil result struct; it makes no call on
  the client, so no request is built or sent, and the memory is the one it started with.
\<close>

theorem rejected_pid_has_no_effect:
  assumes "snd (parseID env pid) = Some e"
  shows "ApproveMergeRequest env s pid mr opt options st = (Return (None, None, Some e), st, [])
       \<and> UnapproveMergeRequest env s pid mr options st = (Return (None, Some e), st, [])
       \<and> ChangeApprovalConfiguration env s pid mr opt options st = (Return (None, None, Some e), st, [])
       \<and> ChangeAllowedApprovers env s pid mr opt options st = (Return (None, None, Some e), st, [])
       \<and> ChangeProjectMergeRequestApprovalConfiguration env s pid opt options st
           = (Return (None, None, Some e), st, [])"
  using assms
  by (simp add: ApproveMergeRequest_shape ChangeApprovalConfiguration_shape ChangeAllowedApprovers_shape
        ChangeProjectMergeRequestApprovalConfiguration_shape
        request_decode_rejected UnapproveMergeRequest_rejected)

theorem rejected_pid_has_no_effect_witness:
  "snd (parseID test_env Other_pid) = Some ''invalid ID type''
 \<and> ApproveMergeRequest test_env (Some 0) (Other_pid) 3 (Some 1) [] (test_mem 2)
     = (Return (None, None, Some ''invalid ID type''), test_mem 2, [])
 \<and> UnapproveMergeRequest test_env (Some 0) (Other_pid) 3 [] (test_mem 2)
     = (Return (None, Some ''invalid ID type''), test_mem 2, [])
 \<and> ChangeApprovalConfiguration test_env (Some 0) (Other_pid) 3 (Some 2) [] (test_mem 2)
     = (Return (None, None, Some ''invalid ID type''), test_mem 2, [])
 \<and> ChangeAllowedApprovers test_env (Some 0) (Other_pid) 3 (Some 3) [] (test_mem 2)
     = (Return (None, None, Some ''invalid ID type''), test_mem 2, [])
 \<and> ChangeProjectMergeRequestApprovalConfiguration
       test_env (Some 0) (Other_pid) (Some 4) [] (test_mem 2)
     = (Return (None, None, Some ''invalid ID type''), test_mem 2, [])"
proof -
  have rejected: "snd (parseID test_env Other_pid) = Some ''invalid ID type''"
    by (simp add: test_env_def test_parseID_def)
  show ?thesis
    using rejected rejected_pid_has_no_effect [OF rejected] by simp
qed

text \<open>
  C10. In the four methods that return a struct, when \<open>Do\<close> fails the method returns
  the response \<open>Do\<close> gave (nil or not) next to the error, and a nil struct pointer.
  The run below has a non-nil response next to an error.
\<close>

theorem Do_response_returned_with_error:
  "(Do_call c q v r (Some e)
        \<in> set (calls_of (ApproveMergeRequest env s pid mr opt options st)) \<longrightarrow>
      result_of (ApproveMergeRequest env s pid mr opt options st) = Return (None, r, Some e))
 \<and> (Do_call c q v r (Some e)
       \<in> set (calls_of (ChangeApprovalConfiguration env s pid mr opt options st)) \<longrightarrow>
      result_of (ChangeApprovalConfiguration env s pid mr opt options st) = Return (None, r, Some e))
 \<and> (Do_call c q v r (Some e)
       \<in> set (calls_of (ChangeAllowedApprovers env s pid mr opt options st)) \<longrightarrow>
      result_of (ChangeAllowedApprovers env s pid mr opt options st) = Return (None, r, Some e))
 \<and> (Do_call c q v r (Some e)
       \<in> set (calls_of (ChangeProjectMergeRequestApprovalConfiguration env s pid opt options st)) \<longrightarrow>
      result_of (ChangeProjectMergeRequestApprovalConfiguration env s pid opt options st) = Return (None, r, Some e))"
  by (simp add: ApproveMergeRequest_shape ChangeApprovalConfiguration_shape ChangeAllowedApprovers_shape
        ChangeProjectMergeRequestApprovalConfiguration_shape
        request_decode_Do_error)

theorem Do_response_returned_with_error_witness:
  "Do_call 1 (Some (''POST'', ''projects/7/merge_requests/3/approve'')) (MergeRequestApprovals_ptr 5) (Some 404) (Some ''404 Not Found'')
     \<in> set (calls_of (ApproveMergeRequest
           test_env (Some 0) (Int_pid 7) 3 (Some 1) [] (test_mem 1)))
 \<and> result_of (ApproveMergeRequest test_env (Some 0) (Int_pid 7) 3 (Some 1) [] (test_mem 1))
     = Return (None, Some 404, Some ''404 Not Found'')
 \<and> Do_call 1 (Some (''POST'', ''projects/7/merge_requests/3/approvals'')) (MergeRequest_ptr 5) (Some 404) (Some ''404 Not Found'')
     \<in> set (calls_of (ChangeApprovalConfiguration
           test_env (Some 0) (Int_pid 7) 3 (Some 2) [] (test_mem 1)))
 \<and> result_of (ChangeApprovalConfiguration
       test_env (Some 0) (Int_pid 7) 3 (Some 2) [] (test_mem 1))
     = Return (None, Some 404, Some ''404 Not Found'')
 \<and> Do_call 1 (Some (''PUT'', ''projects/7/merge_requests/3/approvers'')) (MergeRequest_ptr 5) (Some 404) (Some ''404 Not Found'')
     \<in> set (calls_of (ChangeAllowedApprovers
           test_env (Some 0) (Int_pid 7) 3 (Some 3) [] (test_mem 1)))
 \<and> result_of (ChangeAllowedApprovers
       test_env (Some 0) (Int_pid 7) 3 (Some 3) [] (test_mem 1))
     = Return (None, Some 404, Some ''404 Not Found'')
 \<and> Do_call 1 (Some (''POST'', ''projects/7/approvals'')) (MergeRequestApprovals_ptr 5) (Some 404) (Some ''404 Not Found'')
     \<in> set (calls_of (ChangeProjectMergeRequestApprovalConfiguration
           test_env (Some 0) (Int_pid 7) (Some 4) [] (test_mem 1)))
 \<and> result_of (ChangeProjectMergeRequestApprovalConfiguration
       test_env (Some 0) (Int_pid 7) (Some 4) [] (test_mem 1))
     = Return (None, Some 404, Some ''404 Not Found'')"
proof -
  have approve: "Do_call 1 (Some (''POST'', ''projects/7/merge_requests/3/approve'')) (MergeRequestApprovals_ptr 5) (Some 404) (Some ''404 Not Found'')
      \<in> set (calls_of (ApproveMergeRequest
            test_env (Some 0) (Int_pid 7) 3 (Some 1) [] (test_mem 1)))"
    by (simp add: obs ApproveMergeRequest_def test_defs)

  have conf: "Do_call 1 (Some (''POST'', ''projects/7/merge_requests/3/approvals'')) (MergeRequest_ptr 5) (Some 404) (Some ''404 Not Found'')
      \<in> set (calls_of (ChangeApprovalConfiguration
            test_env (Some 0) (Int_pid 7) 3 (Some 2) [] (test_mem 1)))"
    by (simp add: obs ChangeApprovalConfiguration_def test_defs)

  have approvers: "Do_call 1 (Some (''PUT'', ''projects/7/merge_requests/3/approvers'')) (MergeRequest_ptr 5) (Some 404) (Some ''404 Not Found'')
      \<in> set (calls_of (ChangeAllowedApprovers
            test_env (Some 0) (Int_pid 7) 3 (Some 3) [] (test_mem 1)))"
    by (simp add: obs ChangeAllowedApprovers_def test_defs)

  have project: "Do_call 1 (Some (''POST'', ''projects/7/approvals'')) (MergeRequestApprovals_ptr 5) (Some 404) (Some ''404 Not Found'')
      \<in> set (calls_of (ChangeProjectMergeRequestApprovalConfiguration
            test_env (Some 0) (Int_pid 7) (Some 4) [] (test_mem 1)))"
    by (simp add: obs ChangeProjectMergeRequestApprovalConfiguration_def test_defs)

  show ?thesis
    using approve conf approvers project
      Do_response_returned_with_error [THEN conjunct1, THEN mp, OF approve]
      Do_response_returned_with_error [THEN conjunct2, THEN conjunct1, THEN mp, OF conf]
      Do_response_returned_with_error [THEN conjunct2, THEN conjunct2, THEN conjunct1, THEN mp, OF approvers]
      Do_response_returned_with_error [THEN conjunct2, THEN conjunct2, THEN conjunct2, THEN mp, OF project]
    by blast
qed

end
